(* ===== verification/Pong_Prelude.thy ===== *)
theory Pong_Prelude
  imports Complex_Main
begin

text \<open>
  Shared vocabulary of the Pong development: the named collections the component
  theories feed, and the generic arithmetic facts about the ``check, then move by a
  fixed step'' pattern that both key handlers and the computer paddle use.
  Positions are JavaScript numbers; every value the program reaches is a multiple of
  one half of small magnitude, on which IEEE doubles compute exactly, so they are
  modelled as \<^typ>\<open>real\<close>.
\<close>

type_synonym coord = real
type_synonym key = string

named_theorems step_simps "per-field equations of the update blocks"

subsection \<open>Values on a grid of fixed step\<close>

text \<open>
  A paddle moves in steps of \<open>paddleSpeed\<close>; whether the clamp is exact depends on
  whether its position and the bound lie on the same grid.
\<close>

definition on_grid :: "real \<Rightarrow> real \<Rightarrow> bool" where
  "on_grid d y \<longleftrightarrow> (\<exists>k::int. y = of_int k * d)"

lemma on_grid_add [intro]: "on_grid d y \<Longrightarrow> on_grid d (y + d)"
  unfolding on_grid_def by (metis add.commute distrib_right mult_1 of_int_add of_int_1)

lemma on_grid_diff [intro]: "on_grid d y \<Longrightarrow> on_grid d (y - d)"
  unfolding on_grid_def by (metis left_diff_distrib mult_1 of_int_1 of_int_diff)

lemma on_grid_of_int [intro]: "on_grid d (of_int k * d)"
  unfolding on_grid_def by blast

lemma on_grid_less_step:
  assumes "0 < d" "on_grid d y" "on_grid d l" "y < l"
  shows "y + d \<le> l"
proof -
  obtain k m :: int where y: "y = of_int k * d" and l: "l = of_int m * d"
    using assms(2,3) unfolding on_grid_def by blast
  with assms(1,4) have "k < m" by (simp add: mult_less_cancel_right)
  then have "of_int k + 1 \<le> (of_int m :: real)" by linarith
  with assms(1) have "(of_int k + 1) * d \<le> of_int m * d"
    by (simp add: mult_right_mono)
  with y l show ?thesis by (simp add: distrib_right)
qed

lemma on_grid_pos_step:
  assumes "0 < d" "on_grid d y" "0 < y"
  shows "d \<le> y"
  using on_grid_less_step [of d 0 y] assms by (simp add: on_grid_def)

end
