(* ===== verification/Pong_State.thy ===== *)
theory Pong_State
  imports Pong_Prelude
begin

text \<open>
  The module-level state of the two scripts. \<open>src/game.js\<close> and
  \<open>src/oneplayer.js\<close> declare the same globals (lines 5--27 of each) apart from the
  second score; the shared ones form the record \<open>pong\<close>, which each variant extends.
  The canvas element is the environment: its size is read by every handler and never
  written, and its inline style carries the background colour the one-player script
  changes.
\<close>

subsection \<open>The canvas element\<close>

record canvas =
  width :: nat
  height :: nat
  initialBackground :: string

abbreviation canvas_w :: "canvas \<Rightarrow> real" where
  "canvas_w c \<equiv> real (width c)"

abbreviation canvas_h :: "canvas \<Rightarrow> real" where
  "canvas_h c \<equiv> real (height c)"

text \<open>The 800 by 400 surface of the scenarios the specification works through.\<close>

definition demoCanvas :: canvas where
  "demoCanvas = \<lparr>width = 800, height = 400, initialBackground = ''white''\<rparr>"

text \<open>A canvas 410 pixels high: its height is not a multiple of 20.\<close>

definition tallCanvas :: canvas where
  "tallCanvas = \<lparr>width = 800, height = 410, initialBackground = ''white''\<rparr>"

text \<open>A canvas 40 pixels wide, on which the first goal comes within ten frames.\<close>

definition narrowCanvas :: canvas where
  "narrowCanvas = \<lparr>width = 40, height = 400, initialBackground = ''white''\<rparr>"

subsection \<open>Constants\<close>

definition paddleWidth :: real where "paddleWidth = 10"
definition paddleHeight :: real where "paddleHeight = 60"
definition paddleSpeed :: real where "paddleSpeed = 10"
definition ballSize :: real where "ballSize = 10"
definition maxScore :: nat where "maxScore = 5"

subsection \<open>Globals\<close>

record pong =
  leftPaddleY :: real
  rightPaddleY :: real
  ballX :: real
  ballY :: real
  ballSpeedX :: real
  ballSpeedY :: real
  player1Score :: nat
  gameOver :: bool

text \<open>\<open>src/game.js\<close>: the second human player's score.\<close>

record two_player = pong +
  player2Score :: nat

text \<open>
  \<open>src/oneplayer.js\<close>: the computer's score, the canvas's inline background colour
  (\<open>canvas.style.backgroundColor\<close>) and the queue of pending \<open>setTimeout\<close>
  callbacks, each recorded by the colour it will set.
\<close>

record one_player = pong +
  computerScore :: nat
  backgroundColor :: string
  timeouts :: "string list"

subsection \<open>Initial values\<close>

text \<open>The paddles start vertically centred, the ball in the middle of the canvas.\<close>

definition centredPaddleY :: "canvas \<Rightarrow> real" where
  "centredPaddleY c = canvas_h c / 2 - paddleHeight / 2"

definition init_2p :: "canvas \<Rightarrow> two_player" where
  "init_2p c = \<lparr>leftPaddleY = centredPaddleY c, rightPaddleY = centredPaddleY c,
     ballX = canvas_w c / 2, ballY = canvas_h c / 2, ballSpeedX = 5, ballSpeedY = 5,
     player1Score = 0, gameOver = False, player2Score = 0\<rparr>"

definition init_1p :: "canvas \<Rightarrow> one_player" where
  "init_1p c = \<lparr>leftPaddleY = centredPaddleY c, rightPaddleY = centredPaddleY c,
     ballX = canvas_w c / 2, ballY = canvas_h c / 2, ballSpeedX = 5, ballSpeedY = 5,
     player1Score = 0, gameOver = False, computerScore = 0,
     backgroundColor = initialBackground c, timeouts = []\<rparr>"

subsection \<open>Where a paddle may be\<close>

text \<open>
  A paddle's top edge \<open>y\<close> is in range when the whole paddle is on the canvas. The
  handlers test the bound before they move by \<open>paddleSpeed\<close>, so the range is kept
  exactly only when \<open>y\<close> and the lower bound lie on the grid of multiples of
  \<open>paddleSpeed\<close>; that holds on a canvas whose height is a multiple of 20 (the start
  position \<open>height/2 - 30\<close> is then a multiple of 10). On any canvas the paddle
  stays within one step of the range.
\<close>

definition aligned :: "canvas \<Rightarrow> bool" where
  "aligned c \<longleftrightarrow> 60 \<le> height c \<and> 20 dvd height c"

definition paddle_ok :: "canvas \<Rightarrow> real \<Rightarrow> bool" where
  "paddle_ok c y \<longleftrightarrow> 0 \<le> y \<and> y \<le> canvas_h c - paddleHeight \<and> on_grid paddleSpeed y"

definition paddle_near :: "canvas \<Rightarrow> real \<Rightarrow> bool" where
  "paddle_near c y \<longleftrightarrow> - paddleSpeed < y \<and> y < canvas_h c - paddleHeight + paddleSpeed"

lemmas pong_consts [simp] =
  paddleWidth_def paddleHeight_def paddleSpeed_def ballSize_def maxScore_def

lemma aligned_bottom_on_grid:
  assumes "aligned c"
  shows "on_grid 10 (canvas_h c - 60)"
proof -
  from assms obtain m where m: "height c = 20 * m" by (auto simp: aligned_def)
  then have "canvas_h c - 60 = of_int (2 * int m - 6) * 10" by simp
  then show ?thesis unfolding on_grid_def by blast
qed

lemma paddle_ok_centred: "aligned c \<Longrightarrow> paddle_ok c (centredPaddleY c)"
proof -
  assume a: "aligned c"
  then obtain m where m: "height c = 20 * m" and "3 \<le> m" by (auto simp: aligned_def)
  then have eq: "centredPaddleY c = of_int (int m - 3) * 10"
    by (simp add: centredPaddleY_def)
  have g: "on_grid paddleSpeed (centredPaddleY c)"
    unfolding eq paddleSpeed_def by (rule on_grid_of_int)
  from eq m \<open>3 \<le> m\<close> have "0 \<le> centredPaddleY c" "centredPaddleY c \<le> canvas_h c - paddleHeight"
    by simp_all
  with g show ?thesis unfolding paddle_ok_def by blast
qed

lemma paddle_ok_up:
  "paddle_ok c y \<Longrightarrow> paddle_ok c (if 0 < y then y - paddleSpeed else y)"
  using on_grid_pos_step [of 10 y] by (auto simp: paddle_ok_def)

lemma paddle_ok_down:
  assumes "aligned c" "paddle_ok c y"
  shows "paddle_ok c (if y < canvas_h c - paddleHeight then y + paddleSpeed else y)"
  using assms aligned_bottom_on_grid [OF assms(1)] on_grid_less_step [of 10 y "canvas_h c - 60"]
  by (auto simp: paddle_ok_def)

lemma paddle_near_centred: "40 < height c \<Longrightarrow> paddle_near c (centredPaddleY c)"
  by (simp add: paddle_near_def centredPaddleY_def)

lemma paddle_near_up:
  "paddle_near c y \<Longrightarrow> paddle_near c (if 0 < y then y - paddleSpeed else y)"
  by (auto simp: paddle_near_def)

lemma paddle_near_down:
  "paddle_near c y \<Longrightarrow> paddle_near c (if y < canvas_h c - paddleHeight then y + paddleSpeed else y)"
  by (auto simp: paddle_near_def)

lemmas paddle_moves = paddle_ok_up paddle_ok_down paddle_near_up paddle_near_down

text \<open>A key press tests one bound for each of its two keys, then moves by one step.\<close>

lemma paddle_ok_key:
  assumes "aligned c" "paddle_ok c y"
  shows "paddle_ok c (if k = up \<and> 0 < y then y - paddleSpeed
     else if k = down \<and> y < canvas_h c - paddleHeight then y + paddleSpeed else y)"
  using paddle_ok_up [OF assms(2)] paddle_ok_down [OF assms] assms(2)
  by (auto split: if_splits)

lemma paddle_near_key:
  assumes "paddle_near c y"
  shows "paddle_near c (if k = up \<and> 0 < y then y - paddleSpeed
     else if k = down \<and> y < canvas_h c - paddleHeight then y + paddleSpeed else y)"
  using assms by (auto simp: paddle_near_def)

text \<open>The computer paddle tests the lower bound first, then the upper one.\<close>

lemma paddle_ok_chase:
  assumes "aligned c" "paddle_ok c y"
  shows "paddle_ok c (if A \<and> y < canvas_h c - paddleHeight then y + paddleSpeed
     else if B \<and> 0 < y then y - paddleSpeed else y)"
  using paddle_ok_up [OF assms(2)] paddle_ok_down [OF assms] assms(2)
  by (auto split: if_splits)

lemma paddle_near_chase:
  assumes "paddle_near c y"
  shows "paddle_near c (if A \<and> y < canvas_h c - paddleHeight then y + paddleSpeed
     else if B \<and> 0 < y then y - paddleSpeed else y)"
  using assms by (auto simp: paddle_near_def)

text \<open>Conversely, a canvas whose paddles start on the grid of steps is aligned.\<close>

lemma aligned_if_centred_on_grid:
  assumes "60 \<le> height c" "on_grid 10 (centredPaddleY c)"
  shows "aligned c"
proof -
  from assms(2) obtain m :: int where m: "centredPaddleY c = of_int m * 10"
    unfolding on_grid_def by blast
  then have "real (height c) = of_int (20 * (m + 3))" by (simp add: centredPaddleY_def)
  then have "int (height c) = 20 * (m + 3)" by linarith
  then have "(20::int) dvd int (height c)" by simp
  then have "20 dvd height c" by presburger
  with assms(1) show ?thesis by (simp add: aligned_def)
qed

end
