(* ===== verification/Ball_Physics.thy ===== *)
theory Ball_Physics
  imports Pong_State
begin

text \<open>
  The first three blocks of \<open>update()\<close>, which both scripts share word for word
  (\<open>src/game.js\<close> lines 69--84, \<open>src/oneplayer.js\<close> lines 70--85): move the ball by its
  velocity, reflect it off the top and bottom walls, reflect it off a paddle. They only
  touch the shared globals, so they are stated over any extension \<open>'a pong_scheme\<close>
  and used by both variants. The lemmas give each block field by field and show that the
  vertical motion keeps the ball's centre on the canvas.
\<close>

subsection \<open>The blocks\<close>

definition moveBall :: "'a pong_scheme \<Rightarrow> 'a pong_scheme" where
  "moveBall s = s\<lparr>ballX := ballX s + ballSpeedX s, ballY := ballY s + ballSpeedY s\<rparr>"

definition wallBounce :: "canvas \<Rightarrow> 'a pong_scheme \<Rightarrow> 'a pong_scheme" where
  "wallBounce c s =
     (if ballY s - ballSize / 2 < 0 \<or> ballY s + ballSize / 2 > canvas_h c
      then s\<lparr>ballSpeedY := - ballSpeedY s\<rparr> else s)"

definition paddleHit :: "canvas \<Rightarrow> 'a pong_scheme \<Rightarrow> bool" where
  "paddleHit c s \<longleftrightarrow>
     (ballX s - ballSize / 2 < paddleWidth \<and> ballY s > leftPaddleY s
        \<and> ballY s < leftPaddleY s + paddleHeight) \<or>
     (ballX s + ballSize / 2 > canvas_w c - paddleWidth \<and> ballY s > rightPaddleY s
        \<and> ballY s < rightPaddleY s + paddleHeight)"

definition paddleBounce :: "canvas \<Rightarrow> 'a pong_scheme \<Rightarrow> 'a pong_scheme" where
  "paddleBounce c s = (if paddleHit c s then s\<lparr>ballSpeedX := - ballSpeedX s\<rparr> else s)"

text \<open>The three blocks in the order \<open>update()\<close> runs them.\<close>

definition ballPhysics :: "canvas \<Rightarrow> 'a pong_scheme \<Rightarrow> 'a pong_scheme" where
  "ballPhysics c s = paddleBounce c (wallBounce c (moveBall s))"

subsection \<open>Predicates on the ball\<close>

text \<open>
  A frame's scoring test reads the ball after its move: its left edge is past the left
  boundary (the right-hand player scores), or else its right edge is past the right
  boundary; \<open>leftGoal\<close> and \<open>rightGoal\<close> state these tests on the state before the
  frame. \<open>ball_y_ok\<close> says that the ball moves by 5 a frame and that its centre is on the
  canvas, at least one step from the wall it is moving towards.
\<close>

definition leftGoal :: "canvas \<Rightarrow> 'a pong_scheme \<Rightarrow> bool" where
  "leftGoal c s \<longleftrightarrow> ballX s + ballSpeedX s - ballSize / 2 < 0"

definition rightGoal :: "canvas \<Rightarrow> 'a pong_scheme \<Rightarrow> bool" where
  "rightGoal c s \<longleftrightarrow> \<not> leftGoal c s \<and> ballX s + ballSpeedX s + ballSize / 2 > canvas_w c"

definition ball_x_ok :: "canvas \<Rightarrow> 'a pong_scheme \<Rightarrow> bool" where
  "ball_x_ok c s \<longleftrightarrow> 5 \<le> ballX s \<and> ballX s \<le> canvas_w c - 5"

definition speed_ok :: "'a pong_scheme \<Rightarrow> bool" where
  "speed_ok s \<longleftrightarrow> \<bar>ballSpeedX s\<bar> = 5 \<and> \<bar>ballSpeedY s\<bar> = 5"

definition ball_y_ok :: "canvas \<Rightarrow> 'a pong_scheme \<Rightarrow> bool" where
  "ball_y_ok c s \<longleftrightarrow> \<bar>ballSpeedY s\<bar> = 5 \<and> 0 \<le> ballY s \<and> ballY s \<le> canvas_h c
     \<and> (ballSpeedY s < 0 \<longrightarrow> 5 \<le> ballY s) \<and> (0 < ballSpeedY s \<longrightarrow> ballY s \<le> canvas_h c - 5)"

subsection \<open>The blocks field by field\<close>

lemma moveBall_fields [step_simps]:
  "ballX (moveBall s) = ballX s + ballSpeedX s"
  "ballY (moveBall s) = ballY s + ballSpeedY s"
  "ballSpeedX (moveBall s) = ballSpeedX s" "ballSpeedY (moveBall s) = ballSpeedY s"
  "leftPaddleY (moveBall s) = leftPaddleY s" "rightPaddleY (moveBall s) = rightPaddleY s"
  "player1Score (moveBall s) = player1Score s" "gameOver (moveBall s) = gameOver s"
  "pong.more (moveBall s) = pong.more s"
  by (simp_all add: moveBall_def)

lemma wallBounce_fields [step_simps]:
  "ballSpeedY (wallBounce c s) =
     (if ballY s - 5 < 0 \<or> ballY s + 5 > canvas_h c then - ballSpeedY s else ballSpeedY s)"
  "ballX (wallBounce c s) = ballX s" "ballY (wallBounce c s) = ballY s"
  "ballSpeedX (wallBounce c s) = ballSpeedX s"
  "leftPaddleY (wallBounce c s) = leftPaddleY s" "rightPaddleY (wallBounce c s) = rightPaddleY s"
  "player1Score (wallBounce c s) = player1Score s" "gameOver (wallBounce c s) = gameOver s"
  "pong.more (wallBounce c s) = pong.more s"
  by (simp_all add: wallBounce_def)

lemma paddleBounce_fields [step_simps]:
  "ballSpeedX (paddleBounce c s) = (if paddleHit c s then - ballSpeedX s else ballSpeedX s)"
  "ballX (paddleBounce c s) = ballX s" "ballY (paddleBounce c s) = ballY s"
  "ballSpeedY (paddleBounce c s) = ballSpeedY s"
  "leftPaddleY (paddleBounce c s) = leftPaddleY s" "rightPaddleY (paddleBounce c s) = rightPaddleY s"
  "player1Score (paddleBounce c s) = player1Score s" "gameOver (paddleBounce c s) = gameOver s"
  "pong.more (paddleBounce c s) = pong.more s"
  by (simp_all add: paddleBounce_def)

lemma paddleHit_moved:
  "paddleHit c (wallBounce c (moveBall s)) \<longleftrightarrow>
     (ballX s + ballSpeedX s - 5 < 10 \<and> ballY s + ballSpeedY s > leftPaddleY s
        \<and> ballY s + ballSpeedY s < leftPaddleY s + 60) \<or>
     (ballX s + ballSpeedX s + 5 > canvas_w c - 10 \<and> ballY s + ballSpeedY s > rightPaddleY s
        \<and> ballY s + ballSpeedY s < rightPaddleY s + 60)"
  by (simp add: paddleHit_def step_simps)

lemma ballPhysics_fields [step_simps]:
  "ballX (ballPhysics c s) = ballX s + ballSpeedX s"
  "ballY (ballPhysics c s) = ballY s + ballSpeedY s"
  "ballSpeedX (ballPhysics c s) =
     (if paddleHit c (wallBounce c (moveBall s)) then - ballSpeedX s else ballSpeedX s)"
  "ballSpeedY (ballPhysics c s) =
     (if ballY s + ballSpeedY s - 5 < 0 \<or> ballY s + ballSpeedY s + 5 > canvas_h c
      then - ballSpeedY s else ballSpeedY s)"
  "leftPaddleY (ballPhysics c s) = leftPaddleY s" "rightPaddleY (ballPhysics c s) = rightPaddleY s"
  "player1Score (ballPhysics c s) = player1Score s" "gameOver (ballPhysics c s) = gameOver s"
  "pong.more (ballPhysics c s) = pong.more s"
  by (simp_all add: ballPhysics_def step_simps)

lemma ballPhysics_speed_abs:
  "\<bar>ballSpeedX (ballPhysics c s)\<bar> = \<bar>ballSpeedX s\<bar>"
  "\<bar>ballSpeedY (ballPhysics c s)\<bar> = \<bar>ballSpeedY s\<bar>"
  by (simp_all add: step_simps)

subsection \<open>Vertical motion keeps the ball on the canvas\<close>

text \<open>
  The ball moves by 5 a frame and turns as soon as its edge passes a wall, so its centre
  never leaves \<open>[0, height]\<close>. The invariant also records that a ball moving up is at
  least one step below the top and a ball moving down one step above the bottom.
\<close>

lemma ball_y_ok_ballPhysics:
  assumes "ball_y_ok c s" "10 \<le> canvas_h c"
  shows "ball_y_ok c (ballPhysics c s)"
  using assms unfolding ball_y_ok_def by (auto simp: step_simps abs_if split: if_splits)

lemma ball_y_ok_centre:
  "\<bar>ballSpeedY s\<bar> = 5 \<Longrightarrow> 10 \<le> canvas_h c \<Longrightarrow> ballY s = canvas_h c / 2 \<Longrightarrow> ball_y_ok c s"
  unfolding ball_y_ok_def by auto

subsection \<open>Speeds and scoring events\<close>

lemma speed_ok_ballPhysics: "speed_ok s \<Longrightarrow> speed_ok (ballPhysics c s)"
  by (simp add: speed_ok_def ballPhysics_speed_abs)

lemma goal_cases: "leftGoal c s \<or> rightGoal c s \<longleftrightarrow>
    ballX s + ballSpeedX s - 5 < 0 \<or> ballX s + ballSpeedX s + 5 > canvas_w c"
  by (auto simp: leftGoal_def rightGoal_def)

end
