(* ===== verification/Render.thy ===== *)
theory Render
  imports Pong_State
begin

text \<open>
  The renderer of both scripts. Drawing is a sequence of calls on the canvas's 2D
  context; it is modelled as a list of commands (\<open>cmd\<close>), and the context as a
  record of its current fill style, font and path and the list of things painted so far.
  \<open>exec_cmd\<close> gives each call's effect as the HTML canvas specifies it (the context is
  the browser's, not the repository's code). A \<open>clearRect\<close> over the whole canvas
  erases everything painted before it. The draw functions (\<open>drawRect\<close>,
  \<open>drawBall\<close>, \<open>drawScores\<close>, \<open>drawGameOver\<close>, \<open>clearCanvas\<close>, \<open>draw\<close>) return
  the commands they issue. What a viewer can read off the painted list is given by
  observation functions (\<open>texts\<close>, \<open>labels\<close>, \<open>rects\<close>, \<open>discs\<close>); the lemmas
  show that a full draw, which starts by clearing the canvas, shows the game state and
  nothing else, whatever was painted before.
\<close>

subsection \<open>The 2D context\<close>

datatype cmd =
    SetFillStyle string
  | SetFont string
  | FillRect real real real real
  | ClearRect real real real real
  | BeginPath
  | Arc real real real real real
  | Fill
  | FillText string real real

datatype paint =
    PRect string real real real real
  | PPath string "(real \<times> real \<times> real \<times> real \<times> real) list"
  | PText string string string real real
  | PErase real real real real

record ctx =
  fillStyle :: string
  font :: string
  path :: "(real \<times> real \<times> real \<times> real \<times> real) list"
  painted :: "paint list"

definition ctx0 :: ctx where
  "ctx0 = \<lparr>fillStyle = ''#000000'', font = ''10px sans-serif'', path = [], painted = []\<rparr>"

fun exec_cmd :: "canvas \<Rightarrow> cmd \<Rightarrow> ctx \<Rightarrow> ctx" where
  "exec_cmd c (SetFillStyle col) k = k\<lparr>fillStyle := col\<rparr>"
| "exec_cmd c (SetFont f) k = k\<lparr>font := f\<rparr>"
| "exec_cmd c (FillRect x y w h) k = k\<lparr>painted := painted k @ [PRect (fillStyle k) x y w h]\<rparr>"
| "exec_cmd c (ClearRect x y w h) k =
     (if x \<le> 0 \<and> y \<le> 0 \<and> canvas_w c \<le> x + w \<and> canvas_h c \<le> y + h
      then k\<lparr>painted := []\<rparr> else k\<lparr>painted := painted k @ [PErase x y w h]\<rparr>)"
| "exec_cmd c BeginPath k = k\<lparr>path := []\<rparr>"
| "exec_cmd c (Arc x y r a b) k = k\<lparr>path := path k @ [(x, y, r, a, b)]\<rparr>"
| "exec_cmd c Fill k = k\<lparr>painted := painted k @ [PPath (fillStyle k) (path k)]\<rparr>"
| "exec_cmd c (FillText t x y) k = k\<lparr>painted := painted k @ [PText (fillStyle k) (font k) t x y]\<rparr>"

primrec exec :: "canvas \<Rightarrow> cmd list \<Rightarrow> ctx \<Rightarrow> ctx" where
  "exec c [] k = k"
| "exec c (x # xs) k = exec c xs (exec_cmd c x k)"

subsection \<open>Numbers as text\<close>

text \<open>
  \<open>'Player 1: ' + player1Score\<close> converts the score with JavaScript's
  \<open>Number.prototype.toString\<close>; for a natural number that is its decimal digits.
\<close>

fun string_of_nat :: "nat \<Rightarrow> string" where
  "string_of_nat n =
     (if n < 10 then [char_of (48 + n)]
      else string_of_nat (n div 10) @ [char_of (48 + n mod 10)])"

declare string_of_nat.simps [simp del]

subsection \<open>Draw functions shared by both scripts\<close>

text \<open>\<open>Math.PI\<close> is the IEEE double nearest to \<open>\<pi>\<close>, a dyadic rational.\<close>

definition Math_PI :: real where
  "Math_PI = 884279719003555 / 281474976710656"

definition drawRect :: "real \<Rightarrow> real \<Rightarrow> real \<Rightarrow> real \<Rightarrow> string \<Rightarrow> cmd list" where
  "drawRect x y w h color = [SetFillStyle color, FillRect x y w h]"

definition drawBall :: "real \<Rightarrow> real \<Rightarrow> real \<Rightarrow> string \<Rightarrow> cmd list" where
  "drawBall x y sz color = [SetFillStyle color, BeginPath, Arc x y sz 0 (Math_PI * 2), Fill]"

definition clearCanvas :: "canvas \<Rightarrow> cmd list" where
  "clearCanvas c = [ClearRect 0 0 (canvas_w c) (canvas_h c)]"

subsection \<open>The two-player renderer (\<open>src/game.js\<close>)\<close>

definition drawScores_2p :: "canvas \<Rightarrow> two_player \<Rightarrow> cmd list" where
  "drawScores_2p c s =
     [SetFillStyle ''white'', SetFont ''20px Arial'',
      FillText (''Player 1: '' @ string_of_nat (player1Score s)) 20 30,
      FillText (''Player 2: '' @ string_of_nat (player2Score s)) (canvas_w c - 140) 30]"

definition drawGameOver_2p :: "canvas \<Rightarrow> cmd list" where
  "drawGameOver_2p c =
     [SetFillStyle ''white'', SetFont ''40px Arial'',
      FillText ''Game Over You Won'' (canvas_w c / 2 - 120) (canvas_h c / 2),
      SetFont ''20px Arial'',
      FillText ''Press F5 to restart'' (canvas_w c / 2 - 100) (canvas_h c / 2 + 30)]"

definition draw_2p :: "canvas \<Rightarrow> two_player \<Rightarrow> cmd list" where
  "draw_2p c s =
     clearCanvas c
     @ drawRect 0 (leftPaddleY s) paddleWidth paddleHeight ''blue''
     @ drawRect (canvas_w c - paddleWidth) (rightPaddleY s) paddleWidth paddleHeight ''red''
     @ drawBall (ballX s) (ballY s) ballSize ''white''
     @ drawScores_2p c s
     @ (if gameOver s then drawGameOver_2p c else [])"

subsection \<open>The one-player renderer (\<open>src/oneplayer.js\<close>)\<close>

definition drawScores_1p :: "canvas \<Rightarrow> one_player \<Rightarrow> cmd list" where
  "drawScores_1p c s =
     [SetFillStyle ''white'', SetFont ''20px Arial'',
      FillText (''Player: '' @ string_of_nat (player1Score s)) 20 30,
      FillText (''Computer: '' @ string_of_nat (computerScore s)) (canvas_w c - 140) 30]"

definition drawGameOver_1p :: "canvas \<Rightarrow> string \<Rightarrow> cmd list" where
  "drawGameOver_1p c message =
     [SetFillStyle ''white'', SetFont ''40px Arial'',
      FillText ''Game Over'' (canvas_w c / 2 - 120) (canvas_h c / 2 - 30),
      FillText message (canvas_w c / 2 - 100) (canvas_h c / 2 + 20),
      SetFont ''20px Arial'',
      FillText ''Press F5 to restart'' (canvas_w c / 2 - 100) (canvas_h c / 2 + 70)]"

definition gameOverMessage_1p :: "one_player \<Rightarrow> string" where
  "gameOverMessage_1p s = (if player1Score s = maxScore then ''You Won!'' else ''You Lost, Try Again'')"

definition draw_1p :: "canvas \<Rightarrow> one_player \<Rightarrow> cmd list" where
  "draw_1p c s =
     clearCanvas c
     @ drawRect 0 (leftPaddleY s) paddleWidth paddleHeight ''blue''
     @ drawRect (canvas_w c - paddleWidth) (rightPaddleY s) paddleWidth paddleHeight ''red''
     @ drawBall (ballX s) (ballY s) ballSize ''white''
     @ drawScores_1p c s
     @ (if gameOver s then drawGameOver_1p c (gameOverMessage_1p s) else [])"

subsection \<open>What a viewer reads off the canvas\<close>

text \<open>
  Observations of a painted canvas, independent of how it was drawn: the texts shown, the
  numbers shown after a label (read back as decimal digits), the top-left corners of the
  rectangles filled in a colour, and the centres of the discs filled.
\<close>

fun texts :: "paint list \<Rightarrow> string list" where
  "texts [] = []"
| "texts (PText _ _ t _ _ # ps) = t # texts ps"
| "texts (_ # ps) = texts ps"

fun rects :: "string \<Rightarrow> paint list \<Rightarrow> (real \<times> real) list" where
  "rects col [] = []"
| "rects col (PRect k x y _ _ # ps) = (if k = col then (x, y) # rects col ps else rects col ps)"
| "rects col (_ # ps) = rects col ps"

fun discs :: "paint list \<Rightarrow> (real \<times> real) list" where
  "discs [] = []"
| "discs (PPath _ arcs # ps) = map (\<lambda>(x, y, _). (x, y)) arcs @ discs ps"
| "discs (_ # ps) = discs ps"

definition nat_of_digits :: "string \<Rightarrow> nat" where
  "nat_of_digits cs = foldl (\<lambda>n ch. 10 * n + (of_char ch - 48)) 0 cs"

definition labels :: "string \<Rightarrow> paint list \<Rightarrow> nat list" where
  "labels pre ps =
     map (\<lambda>t. nat_of_digits (drop (length pre) t)) (filter (\<lambda>t. take (length pre) t = pre) (texts ps))"

subsection \<open>Executing command lists\<close>

lemma exec_append [simp]: "exec c (xs @ ys) k = exec c ys (exec c xs k)"
  by (induction xs arbitrary: k) simp_all

lemma exec_clearCanvas [simp]: "painted (exec c (clearCanvas c) k) = []"
  by (simp add: clearCanvas_def)

lemmas draw_defs = drawRect_def drawBall_def clearCanvas_def



subsection \<open>Score labels\<close>

lemma nat_of_digits_snoc: "nat_of_digits (cs @ [ch]) = 10 * nat_of_digits cs + (of_char ch - 48)"
  by (simp add: nat_of_digits_def)

text \<open>The decimal text of a number reads back as the number.\<close>

lemma string_of_nat_roundtrip: "nat_of_digits (string_of_nat n) = n"
proof (induction n rule: string_of_nat.induct)
  case (1 n)
  show ?case
  proof (cases "n < 10")
    case True
    then show ?thesis by (simp add: string_of_nat.simps [of n] nat_of_digits_def)
  next
    case False
    with "1" have "nat_of_digits (string_of_nat (n div 10)) = n div 10" by simp
    moreover have "(48 + n mod 10) mod 256 - 48 = n mod 10" by simp
    ultimately show ?thesis using False
      by (simp add: string_of_nat.simps [of n] nat_of_digits_snoc)
  qed
qed

subsection \<open>What a full draw shows\<close>

text \<open>
  Whatever the canvas showed before and whatever style was set, \<open>draw()\<close> leaves each
  paddle and the ball painted once, at the current position, one label per score reading
  back as that score, and the game-over texts exactly when the game is over: it clears the
  whole canvas first and sets the fill style and font before each item.
\<close>

lemma observe_draw_2p:
  fixes c s k defines "ps \<equiv> painted (exec c (draw_2p c s) k)"
  shows "rects ''blue'' ps = [(0, leftPaddleY s)]"
    "rects ''red'' ps = [(canvas_w c - paddleWidth, rightPaddleY s)]"
    "discs ps = [(ballX s, ballY s)]"
    "labels ''Player 1: '' ps = [player1Score s]"
    "labels ''Player 2: '' ps = [player2Score s]"
    "''Game Over You Won'' \<in> set (texts ps) \<longleftrightarrow> gameOver s"
  unfolding ps_def
  by (simp_all add: draw_2p_def draw_defs drawScores_2p_def drawGameOver_2p_def labels_def
      string_of_nat_roundtrip)

lemma observe_draw_1p:
  fixes c s k defines "ps \<equiv> painted (exec c (draw_1p c s) k)"
  shows "rects ''blue'' ps = [(0, leftPaddleY s)]"
    "rects ''red'' ps = [(canvas_w c - paddleWidth, rightPaddleY s)]"
    "discs ps = [(ballX s, ballY s)]"
    "labels ''Player: '' ps = [player1Score s]"
    "labels ''Computer: '' ps = [computerScore s]"
    "count_list (texts ps) ''Game Over'' = (if gameOver s then 1 else 0)"
    "''You Won!'' \<in> set (texts ps) \<longleftrightarrow> gameOver s \<and> player1Score s = maxScore"
    "''You Lost, Try Again'' \<in> set (texts ps) \<longleftrightarrow> gameOver s \<and> player1Score s \<noteq> maxScore"
  unfolding ps_def
  by (simp_all add: draw_1p_def draw_defs drawScores_1p_def drawGameOver_1p_def
      gameOverMessage_1p_def labels_def string_of_nat_roundtrip)

end
