(* ===== verification/One_Player.thy ===== *)
theory One_Player
  imports Ball_Physics Render
begin

text \<open>
  \<open>src/oneplayer.js\<close>: the same ball physics as \<open>src/game.js\<close>, a computer-controlled
  right paddle (lines 87--92), a \<open>resetGame()\<close> that also turns the canvas background
  green-yellow and schedules a \<open>setTimeout\<close> callback that sets it to green-yellow again
  (lines 118--130), a game-over block that draws the final frame and the message at once
  (lines 105--114), and a key handler for the left paddle only. \<open>update_1p\<close> returns the
  new globals and the drawing commands \<open>update()\<close> itself issues.
\<close>

subsection \<open>Operations\<close>

definition computerMove :: "canvas \<Rightarrow> 'a pong_scheme \<Rightarrow> 'a pong_scheme" where
  "computerMove c s =
     (if rightPaddleY s + paddleHeight / 2 < ballY s \<and> rightPaddleY s < canvas_h c - paddleHeight
      then s\<lparr>rightPaddleY := rightPaddleY s + paddleSpeed\<rparr>
      else if rightPaddleY s + paddleHeight / 2 > ballY s \<and> rightPaddleY s > 0
      then s\<lparr>rightPaddleY := rightPaddleY s - paddleSpeed\<rparr>
      else s)"

definition resetGame_1p :: "canvas \<Rightarrow> one_player \<Rightarrow> one_player" where
  "resetGame_1p c s = s\<lparr>ballX := canvas_w c / 2, ballY := canvas_h c / 2,
     ballSpeedX := - ballSpeedX s,
     leftPaddleY := canvas_h c / 2 - paddleHeight / 2,
     rightPaddleY := canvas_h c / 2 - paddleHeight / 2,
     backgroundColor := ''greenYellow'',
     timeouts := timeouts s @ [''greenYellow'']\<rparr>"

definition scoring_1p :: "canvas \<Rightarrow> one_player \<Rightarrow> one_player" where
  "scoring_1p c s =
     (if ballX s - ballSize / 2 < 0
      then resetGame_1p c (s\<lparr>computerScore := computerScore s + 1\<rparr>)
      else if ballX s + ballSize / 2 > canvas_w c
      then resetGame_1p c (s\<lparr>player1Score := player1Score s + 1\<rparr>)
      else s)"

definition checkGameOver_1p :: "canvas \<Rightarrow> one_player \<Rightarrow> one_player \<times> cmd list" where
  "checkGameOver_1p c s =
     (if player1Score s = maxScore \<or> computerScore s = maxScore
      then (let s' = s\<lparr>gameOver := True\<rparr>
            in (s', draw_1p c s' @
                    (if player1Score s' = maxScore then drawGameOver_1p c ''You Won!''
                     else drawGameOver_1p c ''You Lost, Try Again'')))
      else (s, []))"

definition update_1p :: "canvas \<Rightarrow> one_player \<Rightarrow> one_player \<times> cmd list" where
  "update_1p c s =
     (if gameOver s then (s, [])
      else checkGameOver_1p c (scoring_1p c (computerMove c (ballPhysics c s))))"

definition keydown_1p :: "canvas \<Rightarrow> key \<Rightarrow> one_player \<Rightarrow> one_player" where
  "keydown_1p c k s =
     (if gameOver s then s else
      let s1 = (if k = ''ArrowUp'' \<and> leftPaddleY s > 0
                then s\<lparr>leftPaddleY := leftPaddleY s - paddleSpeed\<rparr> else s);
          s2 = (if k = ''ArrowDown'' \<and> leftPaddleY s1 < canvas_h c - paddleHeight
                then s1\<lparr>leftPaddleY := leftPaddleY s1 + paddleSpeed\<rparr> else s1)
      in s2)"

text \<open>The oldest pending \<open>setTimeout\<close> callback runs: it sets the background colour.\<close>

definition timeoutFires :: "one_player \<Rightarrow> one_player" where
  "timeoutFires s =
     (case timeouts s of [] \<Rightarrow> s
      | col # rest \<Rightarrow> s\<lparr>backgroundColor := col, timeouts := rest\<rparr>)"

subsection \<open>Field equations\<close>

lemma one_player_ext_blocks [step_simps]:
  "computerScore (ballPhysics c s) = computerScore s"
  "backgroundColor (ballPhysics c s) = backgroundColor s"
  "timeouts (ballPhysics c s) = timeouts s"
  "computerScore (computerMove c s) = computerScore s"
  "backgroundColor (computerMove c s) = backgroundColor s"
  "timeouts (computerMove c s) = timeouts s"
  by (simp_all add: ballPhysics_def moveBall_def wallBounce_def paddleBounce_def computerMove_def)

lemma computerMove_fields [step_simps]:
  "rightPaddleY (computerMove c s) =
     (if rightPaddleY s + 30 < ballY s \<and> rightPaddleY s < canvas_h c - 60 then rightPaddleY s + 10
      else if rightPaddleY s + 30 > ballY s \<and> 0 < rightPaddleY s then rightPaddleY s - 10
      else rightPaddleY s)"
  "ballX (computerMove c s) = ballX s" "ballY (computerMove c s) = ballY s"
  "ballSpeedX (computerMove c s) = ballSpeedX s" "ballSpeedY (computerMove c s) = ballSpeedY s"
  "leftPaddleY (computerMove c s) = leftPaddleY s"
  "player1Score (computerMove c s) = player1Score s" "gameOver (computerMove c s) = gameOver s"
  "pong.more (computerMove c s) = pong.more s"
  by (simp_all add: computerMove_def)

lemma scoring_1p_fields [step_simps]:
  "ballX (scoring_1p c s) = (if ballX s - 5 < 0 \<or> ballX s + 5 > canvas_w c then canvas_w c / 2 else ballX s)"
  "ballY (scoring_1p c s) = (if ballX s - 5 < 0 \<or> ballX s + 5 > canvas_w c then canvas_h c / 2 else ballY s)"
  "ballSpeedX (scoring_1p c s) =
     (if ballX s - 5 < 0 \<or> ballX s + 5 > canvas_w c then - ballSpeedX s else ballSpeedX s)"
  "ballSpeedY (scoring_1p c s) = ballSpeedY s"
  "leftPaddleY (scoring_1p c s) =
     (if ballX s - 5 < 0 \<or> ballX s + 5 > canvas_w c then centredPaddleY c else leftPaddleY s)"
  "rightPaddleY (scoring_1p c s) =
     (if ballX s - 5 < 0 \<or> ballX s + 5 > canvas_w c then centredPaddleY c else rightPaddleY s)"
  "player1Score (scoring_1p c s) =
     (if \<not> ballX s - 5 < 0 \<and> ballX s + 5 > canvas_w c then player1Score s + 1 else player1Score s)"
  "computerScore (scoring_1p c s) = (if ballX s - 5 < 0 then computerScore s + 1 else computerScore s)"
  "backgroundColor (scoring_1p c s) =
     (if ballX s - 5 < 0 \<or> ballX s + 5 > canvas_w c then ''greenYellow'' else backgroundColor s)"
  "timeouts (scoring_1p c s) =
     (if ballX s - 5 < 0 \<or> ballX s + 5 > canvas_w c then timeouts s @ [''greenYellow''] else timeouts s)"
  "gameOver (scoring_1p c s) = gameOver s"
  by (simp_all add: scoring_1p_def resetGame_1p_def centredPaddleY_def)

lemma checkGameOver_1p_fields [step_simps]:
  "gameOver (fst (checkGameOver_1p c s)) =
     (gameOver s \<or> player1Score s = maxScore \<or> computerScore s = maxScore)"
  "ballX (fst (checkGameOver_1p c s)) = ballX s" "ballY (fst (checkGameOver_1p c s)) = ballY s"
  "ballSpeedX (fst (checkGameOver_1p c s)) = ballSpeedX s"
  "ballSpeedY (fst (checkGameOver_1p c s)) = ballSpeedY s"
  "leftPaddleY (fst (checkGameOver_1p c s)) = leftPaddleY s"
  "rightPaddleY (fst (checkGameOver_1p c s)) = rightPaddleY s"
  "player1Score (fst (checkGameOver_1p c s)) = player1Score s"
  "computerScore (fst (checkGameOver_1p c s)) = computerScore s"
  "backgroundColor (fst (checkGameOver_1p c s)) = backgroundColor s"
  "timeouts (fst (checkGameOver_1p c s)) = timeouts s"
  by (simp_all add: checkGameOver_1p_def Let_def)

lemma update_1p_over: "gameOver s \<Longrightarrow> update_1p c s = (s, [])"
  by (simp add: update_1p_def)

lemma keydown_1p_over: "gameOver s \<Longrightarrow> keydown_1p c k s = s"
  by (simp add: keydown_1p_def)

lemma update_1p_fields [step_simps]:
  assumes "\<not> gameOver s"
  shows
  "ballX (fst (update_1p c s)) =
     (if leftGoal c s \<or> rightGoal c s then canvas_w c / 2 else ballX s + ballSpeedX s)"
  "ballY (fst (update_1p c s)) =
     (if leftGoal c s \<or> rightGoal c s then canvas_h c / 2 else ballY s + ballSpeedY s)"
  "ballSpeedX (fst (update_1p c s)) =
     (if paddleHit c (wallBounce c (moveBall s)) \<noteq> (leftGoal c s \<or> rightGoal c s)
      then - ballSpeedX s else ballSpeedX s)"
  "ballSpeedY (fst (update_1p c s)) =
     (if ballY s + ballSpeedY s - 5 < 0 \<or> ballY s + ballSpeedY s + 5 > canvas_h c
      then - ballSpeedY s else ballSpeedY s)"
  "leftPaddleY (fst (update_1p c s)) =
     (if leftGoal c s \<or> rightGoal c s then centredPaddleY c else leftPaddleY s)"
  "rightPaddleY (fst (update_1p c s)) =
     (if leftGoal c s \<or> rightGoal c s then centredPaddleY c
      else rightPaddleY (computerMove c (ballPhysics c s)))"
  "player1Score (fst (update_1p c s)) = (if rightGoal c s then player1Score s + 1 else player1Score s)"
  "computerScore (fst (update_1p c s)) = (if leftGoal c s then computerScore s + 1 else computerScore s)"
  "backgroundColor (fst (update_1p c s)) =
     (if leftGoal c s \<or> rightGoal c s then ''greenYellow'' else backgroundColor s)"
  "timeouts (fst (update_1p c s)) =
     (if leftGoal c s \<or> rightGoal c s then timeouts s @ [''greenYellow''] else timeouts s)"
  "gameOver (fst (update_1p c s)) \<longleftrightarrow>
     player1Score (fst (update_1p c s)) = maxScore \<or> computerScore (fst (update_1p c s)) = maxScore"
  using assms
  by (simp_all add: update_1p_def step_simps goal_cases)
     (simp_all add: leftGoal_def rightGoal_def)

lemma keydown_1p_fields [step_simps]:
  "\<not> gameOver s \<Longrightarrow> leftPaddleY (keydown_1p c k s) =
     (if k = ''ArrowUp'' \<and> 0 < leftPaddleY s then leftPaddleY s - paddleSpeed
      else if k = ''ArrowDown'' \<and> leftPaddleY s < canvas_h c - paddleHeight
      then leftPaddleY s + paddleSpeed else leftPaddleY s)"
  "rightPaddleY (keydown_1p c k s) = rightPaddleY s"
  "ballX (keydown_1p c k s) = ballX s" "ballY (keydown_1p c k s) = ballY s"
  "ballSpeedX (keydown_1p c k s) = ballSpeedX s" "ballSpeedY (keydown_1p c k s) = ballSpeedY s"
  "player1Score (keydown_1p c k s) = player1Score s"
  "computerScore (keydown_1p c k s) = computerScore s"
  "backgroundColor (keydown_1p c k s) = backgroundColor s"
  "timeouts (keydown_1p c k s) = timeouts s"
  "gameOver (keydown_1p c k s) = gameOver s"
  by (auto simp: keydown_1p_def Let_def)

lemma timeoutFires_fields [step_simps]:
  "backgroundColor (timeoutFires s) = (case timeouts s of [] \<Rightarrow> backgroundColor s | col # _ \<Rightarrow> col)"
  "timeouts (timeoutFires s) = tl (timeouts s)"
  "pong.truncate (timeoutFires s) = pong.truncate s"
  "computerScore (timeoutFires s) = computerScore s"
  by (simp_all add: timeoutFires_def pong.defs split: list.splits)

subsection \<open>Paddles after a frame and a key press\<close>

lemma paddles_update_1p:
  assumes "aligned c" "paddle_ok c (leftPaddleY s)" "paddle_ok c (rightPaddleY s)"
  shows "paddle_ok c (leftPaddleY (fst (update_1p c s))) \<and> paddle_ok c (rightPaddleY (fst (update_1p c s)))"
proof (cases "gameOver s")
  case True
  with assms show ?thesis by (simp add: update_1p_over)
next
  case False
  let ?y = "rightPaddleY s" and ?b = "ballY s + ballSpeedY s"
  have "rightPaddleY (computerMove c (ballPhysics c s)) =
      (if ?y + 30 < ?b \<and> ?y < canvas_h c - paddleHeight then ?y + paddleSpeed
       else if ?y + 30 > ?b \<and> 0 < ?y then ?y - paddleSpeed else ?y)"
    by (simp add: step_simps)
  then have "paddle_ok c (rightPaddleY (computerMove c (ballPhysics c s)))"
    using paddle_ok_chase [OF assms(1,3)] by presburger
  with False assms paddle_ok_centred [OF assms(1)] show ?thesis
    by (simp add: update_1p_fields)
qed

lemma paddles_keydown_1p:
  assumes "aligned c" "paddle_ok c (leftPaddleY s)" "paddle_ok c (rightPaddleY s)"
  shows "paddle_ok c (leftPaddleY (keydown_1p c k s)) \<and> paddle_ok c (rightPaddleY (keydown_1p c k s))"
  using assms paddle_ok_key [OF assms(1,2), of k "''ArrowUp''" "''ArrowDown''"]
  by (cases "gameOver s") (simp_all add: keydown_1p_over step_simps)

lemma ball_ok_update_1p:
  assumes "ball_x_ok c s" "ball_y_ok c s" "speed_ok s" "10 \<le> canvas_w c" "10 \<le> canvas_h c"
  shows "ball_x_ok c (fst (update_1p c s)) \<and> ball_y_ok c (fst (update_1p c s))
     \<and> speed_ok (fst (update_1p c s))"
proof (cases "gameOver s")
  case True
  with assms show ?thesis by (simp add: update_1p_over)
next
  case False
  have y: "ball_y_ok c (ballPhysics c s)"
    using assms(2,5) by (rule ball_y_ok_ballPhysics)
  have "ball_x_ok c (fst (update_1p c s))"
    using False assms(4) by (auto simp: ball_x_ok_def update_1p_fields goal_cases)
  moreover have "ball_y_ok c (fst (update_1p c s))"
    using False y assms(3,5) unfolding ball_y_ok_def speed_ok_def
    by (auto simp: update_1p_fields step_simps)
  moreover have "speed_ok (fst (update_1p c s))"
    using False assms(3) unfolding speed_ok_def by (simp add: update_1p_fields)
  ultimately show ?thesis by blast
qed

subsection \<open>The computer's policy\<close>

text \<open>C12: the computer paddle chases the ball: in one frame it moves by exactly paddleSpeed or not at all, never away from the ball's height, and it stays put only when its centre is level with the ball or it is at the edge it would move past.\<close>

theorem computerMove_chase:
  "let y = rightPaddleY s; y' = rightPaddleY (computerMove c s); centre = y + paddleHeight / 2 in
   (y' = y \<or> y' = y + paddleSpeed \<or> y' = y - paddleSpeed)
   \<and> (y' - y) * (ballY s - centre) \<ge> 0
   \<and> (y' = y \<longleftrightarrow> centre = ballY s \<or> (centre < ballY s \<and> canvas_h c - paddleHeight \<le> y)
        \<or> (centre > ballY s \<and> y \<le> 0))
   \<and> ballY (computerMove c s) = ballY s \<and> leftPaddleY (computerMove c s) = leftPaddleY s"
  by (auto simp: Let_def step_simps mult_nonneg_nonneg mult_nonpos_nonpos)

subsection \<open>Behaviour of one frame\<close>

text \<open>C14: in a running one-player frame, a ball that crosses the left boundary gives the computer one point (the source's comment says 'Player scores') and one crossing the right boundary gives the player one point; either way the ball and both paddles are re-centred, the background turns 'greenYellow' and one more timeout callback that sets 'greenYellow' is queued.\<close>

theorem update_1p_goal:
  assumes "\<not> gameOver s" "leftGoal c s \<or> rightGoal c s"
  shows "computerScore (fst (update_1p c s)) = computerScore s + (if leftGoal c s then 1 else 0)
     \<and> player1Score (fst (update_1p c s)) = player1Score s + (if rightGoal c s then 1 else 0)
     \<and> ballX (fst (update_1p c s)) = canvas_w c / 2 \<and> ballY (fst (update_1p c s)) = canvas_h c / 2
     \<and> leftPaddleY (fst (update_1p c s)) = canvas_h c / 2 - paddleHeight / 2
     \<and> rightPaddleY (fst (update_1p c s)) = canvas_h c / 2 - paddleHeight / 2
     \<and> backgroundColor (fst (update_1p c s)) = ''greenYellow''
     \<and> timeouts (fst (update_1p c s)) = timeouts s @ [''greenYellow'']"
  using assms by (auto simp: update_1p_fields centredPaddleY_def)

theorem update_1p_goal_witness:
  "\<not> gameOver ((init_1p demoCanvas)\<lparr>ballX := 5, ballSpeedX := -5\<rparr>)
   \<and> leftGoal demoCanvas ((init_1p demoCanvas)\<lparr>ballX := 5, ballSpeedX := -5\<rparr>)
   \<and> computerScore (fst (update_1p demoCanvas ((init_1p demoCanvas)\<lparr>ballX := 5, ballSpeedX := -5\<rparr>))) = 1
   \<and> backgroundColor (fst (update_1p demoCanvas ((init_1p demoCanvas)\<lparr>ballX := 5, ballSpeedX := -5\<rparr>)))
       = ''greenYellow''"
proof -
  let ?s = "(init_1p demoCanvas)\<lparr>ballX := 5, ballSpeedX := -5\<rparr>"
  have h: "\<not> gameOver ?s" "leftGoal demoCanvas ?s"
    by (simp_all add: init_1p_def leftGoal_def)
  show ?thesis using update_1p_goal [OF h(1) disjI1 [OF h(2)]] h by (simp add: init_1p_def)
qed

end
