(* ===== verification/Two_Player.thy ===== *)
theory Two_Player
  imports Ball_Physics
begin

text \<open>
  \<open>src/game.js\<close>: \<open>resetGame()\<close>, the scoring and game-over blocks of \<open>update()\<close>,
  \<open>update()\<close> itself and the \<open>keydown\<close> listener. Each returns the updated globals.
  The lemmas give every field after a frame, on every branch, and show that a frame and a
  key press keep the scores, speeds, ball and paddles within their invariants.
\<close>

subsection \<open>Operations\<close>

definition resetGame_2p :: "canvas \<Rightarrow> 'a pong_scheme \<Rightarrow> 'a pong_scheme" where
  "resetGame_2p c s = s\<lparr>ballX := canvas_w c / 2, ballY := canvas_h c / 2,
     ballSpeedX := - ballSpeedX s,
     leftPaddleY := canvas_h c / 2 - paddleHeight / 2,
     rightPaddleY := canvas_h c / 2 - paddleHeight / 2\<rparr>"

definition scoring_2p :: "canvas \<Rightarrow> two_player \<Rightarrow> two_player" where
  "scoring_2p c s =
     (if ballX s - ballSize / 2 < 0
      then resetGame_2p c (s\<lparr>player2Score := player2Score s + 1\<rparr>)
      else if ballX s + ballSize / 2 > canvas_w c
      then resetGame_2p c (s\<lparr>player1Score := player1Score s + 1\<rparr>)
      else s)"

definition checkGameOver_2p :: "two_player \<Rightarrow> two_player" where
  "checkGameOver_2p s =
     (if player1Score s = maxScore \<or> player2Score s = maxScore
      then s\<lparr>gameOver := True\<rparr> else s)"

definition update_2p :: "canvas \<Rightarrow> two_player \<Rightarrow> two_player" where
  "update_2p c s =
     (if gameOver s then s else checkGameOver_2p (scoring_2p c (ballPhysics c s)))"

definition keydown_2p :: "canvas \<Rightarrow> key \<Rightarrow> two_player \<Rightarrow> two_player" where
  "keydown_2p c k s =
     (if gameOver s then s else
      let s1 = (if k = ''ArrowUp'' \<and> leftPaddleY s > 0
                then s\<lparr>leftPaddleY := leftPaddleY s - paddleSpeed\<rparr> else s);
          s2 = (if k = ''ArrowDown'' \<and> leftPaddleY s1 < canvas_h c - paddleHeight
                then s1\<lparr>leftPaddleY := leftPaddleY s1 + paddleSpeed\<rparr> else s1);
          s3 = (if k = ''w'' \<and> rightPaddleY s2 > 0
                then s2\<lparr>rightPaddleY := rightPaddleY s2 - paddleSpeed\<rparr> else s2);
          s4 = (if k = ''s'' \<and> rightPaddleY s3 < canvas_h c - paddleHeight
                then s3\<lparr>rightPaddleY := rightPaddleY s3 + paddleSpeed\<rparr> else s3)
      in s4)"

text \<open>The score invariant of the two-player game.\<close>

definition score_inv_2p :: "two_player \<Rightarrow> bool" where
  "score_inv_2p s \<longleftrightarrow> player1Score s \<le> maxScore \<and> player2Score s \<le> maxScore
     \<and> \<not> (player1Score s = maxScore \<and> player2Score s = maxScore)
     \<and> (gameOver s \<longleftrightarrow> player1Score s = maxScore \<or> player2Score s = maxScore)"

subsection \<open>Field equations\<close>

lemma resetGame_2p_fields [step_simps]:
  "ballX (resetGame_2p c s) = canvas_w c / 2" "ballY (resetGame_2p c s) = canvas_h c / 2"
  "ballSpeedX (resetGame_2p c s) = - ballSpeedX s" "ballSpeedY (resetGame_2p c s) = ballSpeedY s"
  "leftPaddleY (resetGame_2p c s) = centredPaddleY c"
  "rightPaddleY (resetGame_2p c s) = centredPaddleY c"
  "player1Score (resetGame_2p c s) = player1Score s" "gameOver (resetGame_2p c s) = gameOver s"
  "pong.more (resetGame_2p c s) = pong.more s"
  by (simp_all add: resetGame_2p_def centredPaddleY_def)

lemma player2Score_blocks [step_simps]:
  "player2Score (ballPhysics c s) = player2Score s"
  "player2Score (resetGame_2p c s) = player2Score s"
  by (simp_all add: ballPhysics_def moveBall_def wallBounce_def paddleBounce_def resetGame_2p_def)

lemma scoring_2p_fields [step_simps]:
  "ballX (scoring_2p c s) = (if ballX s - 5 < 0 \<or> ballX s + 5 > canvas_w c then canvas_w c / 2 else ballX s)"
  "ballY (scoring_2p c s) = (if ballX s - 5 < 0 \<or> ballX s + 5 > canvas_w c then canvas_h c / 2 else ballY s)"
  "ballSpeedX (scoring_2p c s) =
     (if ballX s - 5 < 0 \<or> ballX s + 5 > canvas_w c then - ballSpeedX s else ballSpeedX s)"
  "ballSpeedY (scoring_2p c s) = ballSpeedY s"
  "leftPaddleY (scoring_2p c s) =
     (if ballX s - 5 < 0 \<or> ballX s + 5 > canvas_w c then centredPaddleY c else leftPaddleY s)"
  "rightPaddleY (scoring_2p c s) =
     (if ballX s - 5 < 0 \<or> ballX s + 5 > canvas_w c then centredPaddleY c else rightPaddleY s)"
  "player1Score (scoring_2p c s) =
     (if \<not> ballX s - 5 < 0 \<and> ballX s + 5 > canvas_w c then player1Score s + 1 else player1Score s)"
  "player2Score (scoring_2p c s) = (if ballX s - 5 < 0 then player2Score s + 1 else player2Score s)"
  "gameOver (scoring_2p c s) = gameOver s"
  by (simp_all add: scoring_2p_def step_simps)

lemma checkGameOver_2p_fields [step_simps]:
  "gameOver (checkGameOver_2p s) =
     (gameOver s \<or> player1Score s = maxScore \<or> player2Score s = maxScore)"
  "ballX (checkGameOver_2p s) = ballX s" "ballY (checkGameOver_2p s) = ballY s"
  "ballSpeedX (checkGameOver_2p s) = ballSpeedX s" "ballSpeedY (checkGameOver_2p s) = ballSpeedY s"
  "leftPaddleY (checkGameOver_2p s) = leftPaddleY s" "rightPaddleY (checkGameOver_2p s) = rightPaddleY s"
  "player1Score (checkGameOver_2p s) = player1Score s"
  "player2Score (checkGameOver_2p s) = player2Score s"
  by (simp_all add: checkGameOver_2p_def)

lemma update_2p_over: "gameOver s \<Longrightarrow> update_2p c s = s"
  by (simp add: update_2p_def)

lemma keydown_2p_over: "gameOver s \<Longrightarrow> keydown_2p c k s = s"
  by (simp add: keydown_2p_def)

text \<open>A key changes one paddle, and only the one its key is bound to.\<close>

lemma keydown_2p_fields [step_simps]:
  "\<not> gameOver s \<Longrightarrow> leftPaddleY (keydown_2p c k s) =
     (if k = ''ArrowUp'' \<and> 0 < leftPaddleY s then leftPaddleY s - paddleSpeed
      else if k = ''ArrowDown'' \<and> leftPaddleY s < canvas_h c - paddleHeight
      then leftPaddleY s + paddleSpeed else leftPaddleY s)"
  "\<not> gameOver s \<Longrightarrow> rightPaddleY (keydown_2p c k s) =
     (if k = ''w'' \<and> 0 < rightPaddleY s then rightPaddleY s - paddleSpeed
      else if k = ''s'' \<and> rightPaddleY s < canvas_h c - paddleHeight
      then rightPaddleY s + paddleSpeed else rightPaddleY s)"
  "ballX (keydown_2p c k s) = ballX s" "ballY (keydown_2p c k s) = ballY s"
  "ballSpeedX (keydown_2p c k s) = ballSpeedX s" "ballSpeedY (keydown_2p c k s) = ballSpeedY s"
  "player1Score (keydown_2p c k s) = player1Score s"
  "player2Score (keydown_2p c k s) = player2Score s"
  "gameOver (keydown_2p c k s) = gameOver s"
  by (auto simp: keydown_2p_def Let_def)

subsection \<open>One frame of the two-player game\<close>

lemma update_2p_fields [step_simps]:
  assumes "\<not> gameOver s"
  shows
  "ballX (update_2p c s) =
     (if leftGoal c s \<or> rightGoal c s then canvas_w c / 2 else ballX s + ballSpeedX s)"
  "ballY (update_2p c s) =
     (if leftGoal c s \<or> rightGoal c s then canvas_h c / 2 else ballY s + ballSpeedY s)"
  "ballSpeedX (update_2p c s) =
     (if paddleHit c (wallBounce c (moveBall s)) \<noteq> (leftGoal c s \<or> rightGoal c s)
      then - ballSpeedX s else ballSpeedX s)"
  "ballSpeedY (update_2p c s) =
     (if ballY s + ballSpeedY s - 5 < 0 \<or> ballY s + ballSpeedY s + 5 > canvas_h c
      then - ballSpeedY s else ballSpeedY s)"
  "leftPaddleY (update_2p c s) =
     (if leftGoal c s \<or> rightGoal c s then centredPaddleY c else leftPaddleY s)"
  "rightPaddleY (update_2p c s) =
     (if leftGoal c s \<or> rightGoal c s then centredPaddleY c else rightPaddleY s)"
  "player1Score (update_2p c s) = (if rightGoal c s then player1Score s + 1 else player1Score s)"
  "player2Score (update_2p c s) = (if leftGoal c s then player2Score s + 1 else player2Score s)"
  "gameOver (update_2p c s) \<longleftrightarrow>
     player1Score (update_2p c s) = maxScore \<or> player2Score (update_2p c s) = maxScore"
  using assms
  by (simp_all add: update_2p_def step_simps goal_cases)
     (simp_all add: leftGoal_def rightGoal_def)

subsection \<open>Invariants kept by a frame and by a key press\<close>

lemma score_inv_2p_update: "score_inv_2p s \<Longrightarrow> score_inv_2p (update_2p c s)"
  by (cases "gameOver s")
     (auto simp: score_inv_2p_def update_2p_over update_2p_fields rightGoal_def)

lemma score_inv_2p_keydown: "score_inv_2p s \<Longrightarrow> score_inv_2p (keydown_2p c k s)"
  by (simp add: score_inv_2p_def step_simps)

lemma ball_ok_update_2p:
  assumes "ball_x_ok c s" "ball_y_ok c s" "speed_ok s" "10 \<le> canvas_w c" "10 \<le> canvas_h c"
  shows "ball_x_ok c (update_2p c s) \<and> ball_y_ok c (update_2p c s) \<and> speed_ok (update_2p c s)"
proof (cases "gameOver s")
  case True
  with assms show ?thesis by (simp add: update_2p_over)
next
  case False
  have y: "ball_y_ok c (ballPhysics c s)"
    using assms(2,5) by (rule ball_y_ok_ballPhysics)
  have v: "speed_ok (ballPhysics c s)"
    using assms(3) by (rule speed_ok_ballPhysics)
  have "ball_x_ok c (update_2p c s)"
    using False assms(4) by (auto simp: ball_x_ok_def update_2p_fields goal_cases)
  moreover have "ball_y_ok c (update_2p c s)"
    using False y v assms(5) unfolding ball_y_ok_def speed_ok_def
    by (auto simp: update_2p_fields step_simps)
  moreover have "speed_ok (update_2p c s)"
    using False assms(3) unfolding speed_ok_def by (simp add: update_2p_fields)
  ultimately show ?thesis by blast
qed

lemma ball_ok_keydown_2p:
  "ball_x_ok c (keydown_2p c k s) = ball_x_ok c s"
  "ball_y_ok c (keydown_2p c k s) = ball_y_ok c s"
  "speed_ok (keydown_2p c k s) = speed_ok s"
  by (simp_all add: ball_x_ok_def ball_y_ok_def speed_ok_def step_simps)

lemma paddles_update_2p:
  assumes "aligned c" "paddle_ok c (leftPaddleY s)" "paddle_ok c (rightPaddleY s)"
  shows "paddle_ok c (leftPaddleY (update_2p c s)) \<and> paddle_ok c (rightPaddleY (update_2p c s))"
  using assms paddle_ok_centred [OF assms(1)]
  by (cases "gameOver s") (simp_all add: update_2p_over update_2p_fields)

lemma paddles_near_update_2p:
  assumes "40 < height c" "paddle_near c (leftPaddleY s)" "paddle_near c (rightPaddleY s)"
  shows "paddle_near c (leftPaddleY (update_2p c s)) \<and> paddle_near c (rightPaddleY (update_2p c s))"
  using assms paddle_near_centred [OF assms(1)]
  by (cases "gameOver s") (simp_all add: update_2p_over update_2p_fields)

lemma paddles_keydown_2p:
  assumes "aligned c" "paddle_ok c (leftPaddleY s)" "paddle_ok c (rightPaddleY s)"
  shows "paddle_ok c (leftPaddleY (keydown_2p c k s)) \<and> paddle_ok c (rightPaddleY (keydown_2p c k s))"
  using assms paddle_ok_key [OF assms(1,2), of k "''ArrowUp''" "''ArrowDown''"]
    paddle_ok_key [OF assms(1,3), of k "''w''" "''s''"]
  by (cases "gameOver s") (simp_all add: keydown_2p_over step_simps)

lemma paddles_near_keydown_2p:
  assumes "paddle_near c (leftPaddleY s)" "paddle_near c (rightPaddleY s)"
  shows "paddle_near c (leftPaddleY (keydown_2p c k s)) \<and> paddle_near c (rightPaddleY (keydown_2p c k s))"
  using assms paddle_near_key [OF assms(1), of k "''ArrowUp''" "''ArrowDown''"]
    paddle_near_key [OF assms(2), of k "''w''" "''s''"]
  by (cases "gameOver s") (simp_all add: keydown_2p_over step_simps)

subsection \<open>Behaviour of one frame\<close>

text \<open>C3: a frame in which the ball's edge crosses the left or right boundary gives the opposite player exactly one point and re-centres the ball at (width/2, height/2) and both paddles at height/2 - paddleHeight/2.\<close>

theorem update_2p_goal:
  assumes "\<not> gameOver s" "leftGoal c s \<or> rightGoal c s"
  shows "ballX (update_2p c s) = canvas_w c / 2 \<and> ballY (update_2p c s) = canvas_h c / 2
     \<and> leftPaddleY (update_2p c s) = canvas_h c / 2 - paddleHeight / 2
     \<and> rightPaddleY (update_2p c s) = canvas_h c / 2 - paddleHeight / 2
     \<and> player1Score (update_2p c s) = player1Score s + (if rightGoal c s then 1 else 0)
     \<and> player2Score (update_2p c s) = player2Score s + (if leftGoal c s then 1 else 0)
     \<and> player1Score (update_2p c s) + player2Score (update_2p c s) = player1Score s + player2Score s + 1"
  using assms by (auto simp: update_2p_fields centredPaddleY_def rightGoal_def)

theorem update_2p_goal_witness:
  "\<not> gameOver ((init_2p demoCanvas)\<lparr>ballX := 5, ballSpeedX := -5\<rparr>)
   \<and> leftGoal demoCanvas ((init_2p demoCanvas)\<lparr>ballX := 5, ballSpeedX := -5\<rparr>)
   \<and> ballX (update_2p demoCanvas ((init_2p demoCanvas)\<lparr>ballX := 5, ballSpeedX := -5\<rparr>)) = 400
   \<and> player2Score (update_2p demoCanvas ((init_2p demoCanvas)\<lparr>ballX := 5, ballSpeedX := -5\<rparr>)) = 1"
proof -
  let ?s = "(init_2p demoCanvas)\<lparr>ballX := 5, ballSpeedX := -5\<rparr>"
  have h: "\<not> gameOver ?s" "leftGoal demoCanvas ?s"
    by (simp_all add: init_2p_def leftGoal_def)
  show ?thesis using update_2p_goal [OF h(1) disjI1 [OF h(2)]] h by (simp add: demoCanvas_def init_2p_def)
qed

text \<open>C8: across any frame of the two-player game each score either stays or grows by one, and the two together grow by at most one.\<close>

theorem update_2p_scores_step:
  "player1Score s \<le> player1Score (update_2p c s) \<and> player1Score (update_2p c s) \<le> player1Score s + 1
   \<and> player2Score s \<le> player2Score (update_2p c s) \<and> player2Score (update_2p c s) \<le> player2Score s + 1
   \<and> player1Score (update_2p c s) + player2Score (update_2p c s) \<le> player1Score s + player2Score s + 1"
  by (cases "gameOver s") (auto simp: update_2p_over update_2p_fields rightGoal_def)

text \<open>C10: in a frame of a running two-player game with no scoring event, the ball ends at its old position plus its velocity, and neither paddle nor score changes.\<close>

theorem update_2p_no_goal:
  assumes "\<not> gameOver s" "\<not> leftGoal c s" "\<not> rightGoal c s"
  shows "ballX (update_2p c s) = ballX s + ballSpeedX s \<and> ballY (update_2p c s) = ballY s + ballSpeedY s
     \<and> leftPaddleY (update_2p c s) = leftPaddleY s \<and> rightPaddleY (update_2p c s) = rightPaddleY s
     \<and> player1Score (update_2p c s) = player1Score s \<and> player2Score (update_2p c s) = player2Score s"
  using assms by (simp add: update_2p_fields)

theorem update_2p_no_goal_witness:
  "\<not> gameOver (init_2p demoCanvas) \<and> \<not> leftGoal demoCanvas (init_2p demoCanvas)
   \<and> \<not> rightGoal demoCanvas (init_2p demoCanvas)
   \<and> ballX (update_2p demoCanvas (init_2p demoCanvas)) = 405
   \<and> ballY (update_2p demoCanvas (init_2p demoCanvas)) = 205"
proof -
  have h: "\<not> gameOver (init_2p demoCanvas)" "\<not> leftGoal demoCanvas (init_2p demoCanvas)"
    "\<not> rightGoal demoCanvas (init_2p demoCanvas)"
    by (simp_all add: init_2p_def leftGoal_def rightGoal_def demoCanvas_def)
  show ?thesis using update_2p_no_goal [OF h] h by (simp add: init_2p_def demoCanvas_def)
qed

text \<open>C9: in a frame of a running two-player game the vertical velocity is negated exactly when the moved ball's edge is past the top or bottom wall, and the horizontal velocity exactly when one but not both of a paddle contact and a scoring event occur; no component changes otherwise.\<close>

theorem update_2p_velocity:
  assumes "\<not> gameOver s"
  shows "ballSpeedY (update_2p c s) =
       (if ballY s + ballSpeedY s - ballSize / 2 < 0 \<or> ballY s + ballSpeedY s + ballSize / 2 > canvas_h c
        then - ballSpeedY s else ballSpeedY s)
     \<and> ballSpeedX (update_2p c s) =
       (if paddleHit c (moveBall s) \<noteq> (leftGoal c s \<or> rightGoal c s)
        then - ballSpeedX s else ballSpeedX s)"
proof -
  have "paddleHit c (wallBounce c (moveBall s)) = paddleHit c (moveBall s)"
    by (simp add: paddleHit_def step_simps)
  with assms show ?thesis by (simp add: update_2p_fields)
qed

theorem update_2p_velocity_witness:
  "\<not> gameOver (init_2p demoCanvas)
   \<and> ballSpeedX (update_2p demoCanvas (init_2p demoCanvas)) = 5
   \<and> ballSpeedY (update_2p demoCanvas (init_2p demoCanvas)) = 5"
proof -
  have h: "\<not> gameOver (init_2p demoCanvas)" by (simp add: init_2p_def)
  show ?thesis using update_2p_velocity [OF h] h
    by (simp add: init_2p_def demoCanvas_def leftGoal_def rightGoal_def paddleHit_def step_simps)
qed

text \<open>C22: after a goal scored past the left paddle in a frame with no paddle contact, the new serve moves right, towards the player who scored (player 2), not towards the player scored against.\<close>

theorem update_2p_serve_to_scorer:
  assumes "\<not> gameOver s" "ballSpeedX s < 0" "leftGoal c s" "\<not> paddleHit c (moveBall s)"
  shows "player2Score (update_2p c s) = player2Score s + 1 \<and> 0 < ballSpeedX (update_2p c s)"
proof -
  have "paddleHit c (wallBounce c (moveBall s)) = paddleHit c (moveBall s)"
    by (simp add: paddleHit_def step_simps)
  with assms show ?thesis by (simp add: update_2p_fields)
qed

theorem update_2p_serve_to_scorer_witness:
  "\<not> gameOver ((init_2p demoCanvas)\<lparr>ballX := 5, ballY := 50, ballSpeedX := -5\<rparr>)
   \<and> 0 < ballSpeedX (update_2p demoCanvas ((init_2p demoCanvas)\<lparr>ballX := 5, ballY := 50, ballSpeedX := -5\<rparr>))"
proof -
  let ?s = "(init_2p demoCanvas)\<lparr>ballX := 5, ballY := 50, ballSpeedX := -5\<rparr>"
  have h: "\<not> gameOver ?s" "ballSpeedX ?s < 0" "leftGoal demoCanvas ?s" "\<not> paddleHit demoCanvas (moveBall ?s)"
    by (simp_all add: init_2p_def leftGoal_def paddleHit_def step_simps centredPaddleY_def demoCanvas_def)
  show ?thesis using update_2p_serve_to_scorer [OF h] h(1) by blast
qed

lemma update_2p_trap_cycle:
  fixes c s
  defines "y \<equiv> ballY s" and "v \<equiv> ballSpeedY s" and "L \<equiv> leftPaddleY s"
  assumes run: "\<not> gameOver s" "player1Score s < maxScore" "player2Score s < maxScore"
    and w: "30 \<le> canvas_w c" and x: "ballX s = 5" "ballSpeedX s = 5"
    and y1: "L < y + v" "y + v < L + paddleHeight" "5 \<le> y + v" "y + v \<le> canvas_h c - 5"
    and y2: "L < y + 2 * v" "y + 2 * v < L + paddleHeight" "5 \<le> y + 2 * v" "y + 2 * v \<le> canvas_h c - 5"
  shows "update_2p c (update_2p c s) = s\<lparr>ballY := y + 2 * v\<rparr>"
proof -
  let ?s1 = "update_2p c s"
  have g1: "\<not> leftGoal c s" "\<not> rightGoal c s" using w x by (simp_all add: leftGoal_def rightGoal_def)
  have h1: "paddleHit c (wallBounce c (moveBall s))"
    using x y1 by (simp add: paddleHit_def step_simps y_def v_def L_def)
  have s1: "ballX ?s1 = 10" "ballSpeedX ?s1 = -5" "ballY ?s1 = y + v" "ballSpeedY ?s1 = v"
    "leftPaddleY ?s1 = L" "rightPaddleY ?s1 = rightPaddleY s"
    "player1Score ?s1 = player1Score s" "player2Score ?s1 = player2Score s" "\<not> gameOver ?s1"
    using run(1) g1 h1 x y1 run(2,3)
    by (simp_all add: update_2p_fields y_def v_def L_def)
  have g2: "\<not> leftGoal c ?s1" "\<not> rightGoal c ?s1" using w s1 by (simp_all add: leftGoal_def rightGoal_def)
  have h2: "paddleHit c (wallBounce c (moveBall ?s1))"
    using s1 y2 by (simp add: paddleHit_def step_simps algebra_simps)
  show ?thesis
  proof (rule two_player.equality)
  qed (use run(1) s1(9) g2 h2 s1 y2 run(2,3) x in \<open>simp_all add: update_2p_fields algebra_simps y_def v_def L_def\<close>)
qed

text \<open>C23: the paddle test does not look at the ball's direction. A ball the left paddle has just sent back sits at x = 5 moving right; in the next frame it still overlaps the paddle, is turned back, and in the frame after that is turned out again. So for as long as the paddle covers it (and it is clear of the walls), every two frames bring back the same state with only the ball's height advanced: the ball is trapped at the paddle instead of being returned.\<close>

theorem update_2p_ball_trapped:
  assumes "\<not> gameOver s" "player1Score s < maxScore" "player2Score s < maxScore"
    "30 \<le> canvas_w c" "ballX s = 5" "ballSpeedX s = 5"
    "\<forall>j\<in>{1..2 * n}. leftPaddleY s < ballY s + real j * ballSpeedY s
       \<and> ballY s + real j * ballSpeedY s < leftPaddleY s + paddleHeight
       \<and> 5 \<le> ballY s + real j * ballSpeedY s \<and> ballY s + real j * ballSpeedY s \<le> canvas_h c - 5"
  shows "(update_2p c ^^ (2 * n)) s = s\<lparr>ballY := ballY s + 2 * real n * ballSpeedY s\<rparr>"
  using assms
proof (induction n arbitrary: s)
  case 0
  then show ?case by simp
next
  case (Suc n)
  let ?s' = "s\<lparr>ballY := ballY s + 2 * ballSpeedY s\<rparr>"
  have j1: "leftPaddleY s < ballY s + ballSpeedY s \<and> ballY s + ballSpeedY s < leftPaddleY s + paddleHeight
       \<and> 5 \<le> ballY s + ballSpeedY s \<and> ballY s + ballSpeedY s \<le> canvas_h c - 5"
    using Suc.prems(7) by (drule_tac x = 1 in bspec) auto
  have j2: "leftPaddleY s < ballY s + 2 * ballSpeedY s \<and> ballY s + 2 * ballSpeedY s < leftPaddleY s + paddleHeight
       \<and> 5 \<le> ballY s + 2 * ballSpeedY s \<and> ballY s + 2 * ballSpeedY s \<le> canvas_h c - 5"
    using Suc.prems(7) by (drule_tac x = 2 in bspec) auto
  have cyc: "(update_2p c ^^ 2) s = ?s'"
    using update_2p_trap_cycle [OF Suc.prems(1-6)] j1 j2 by (simp add: numeral_2_eq_2)
  have "\<forall>j\<in>{1..2 * n}. leftPaddleY ?s' < ballY ?s' + real j * ballSpeedY ?s'
       \<and> ballY ?s' + real j * ballSpeedY ?s' < leftPaddleY ?s' + paddleHeight
       \<and> 5 \<le> ballY ?s' + real j * ballSpeedY ?s' \<and> ballY ?s' + real j * ballSpeedY ?s' \<le> canvas_h c - 5"
  proof
    fix j assume "j \<in> {1..2 * n}"
    then have "j + 2 \<in> {1..2 * Suc n}" by auto
    with Suc.prems(7) have "leftPaddleY s < ballY s + real (j + 2) * ballSpeedY s
       \<and> ballY s + real (j + 2) * ballSpeedY s < leftPaddleY s + paddleHeight
       \<and> 5 \<le> ballY s + real (j + 2) * ballSpeedY s
       \<and> ballY s + real (j + 2) * ballSpeedY s \<le> canvas_h c - 5"
      by blast
    then show "leftPaddleY ?s' < ballY ?s' + real j * ballSpeedY ?s'
       \<and> ballY ?s' + real j * ballSpeedY ?s' < leftPaddleY ?s' + paddleHeight
       \<and> 5 \<le> ballY ?s' + real j * ballSpeedY ?s' \<and> ballY ?s' + real j * ballSpeedY ?s' \<le> canvas_h c - 5"
      by (simp add: algebra_simps)
  qed
  then have "(update_2p c ^^ (2 * n)) ?s' = ?s'\<lparr>ballY := ballY ?s' + 2 * real n * ballSpeedY ?s'\<rparr>"
    using Suc.IH [of ?s'] Suc.prems(1-6) by simp
  moreover have "(update_2p c ^^ (2 * Suc n)) s = (update_2p c ^^ (2 * n)) ((update_2p c ^^ 2) s)"
    by (metis funpow_add mult_Suc_right add.commute comp_apply)
  ultimately show ?case using cyc by (simp add: algebra_simps)
qed

theorem update_2p_ball_trapped_witness:
  "\<not> gameOver ((init_2p demoCanvas)\<lparr>ballX := 5, ballY := 190\<rparr>)
   \<and> (update_2p demoCanvas ^^ (2 * 2)) ((init_2p demoCanvas)\<lparr>ballX := 5, ballY := 190\<rparr>)
     = (init_2p demoCanvas)\<lparr>ballX := 5, ballY := 210\<rparr>"
proof -
  let ?s = "(init_2p demoCanvas)\<lparr>ballX := 5, ballY := 190\<rparr>"
  have h: "\<forall>j\<in>{1..2 * 2}. leftPaddleY ?s < ballY ?s + real j * ballSpeedY ?s
       \<and> ballY ?s + real j * ballSpeedY ?s < leftPaddleY ?s + paddleHeight
       \<and> 5 \<le> ballY ?s + real j * ballSpeedY ?s \<and> ballY ?s + real j * ballSpeedY ?s \<le> canvas_h demoCanvas - 5"
    by (auto simp: init_2p_def demoCanvas_def centredPaddleY_def)
  have "(update_2p demoCanvas ^^ (2 * 2)) ?s = ?s\<lparr>ballY := ballY ?s + 2 * real 2 * ballSpeedY ?s\<rparr>"
    by (rule update_2p_ball_trapped) (use h in \<open>simp_all add: init_2p_def demoCanvas_def\<close>)
  then show ?thesis by (simp add: init_2p_def)
qed

end
