(* ===== verification/Loop_2p.thy ===== *)
theory Loop_2p
  imports Two_Player Render
begin

text \<open>
  The two-player script as a whole: the browser dispatches, one at a time, animation
  frames (\<open>gameLoop()\<close>, \<open>src/game.js\<close> lines 154--158) and key presses (the
  listener, lines 133--151). The state effect of each is \<open>update_2p\<close> or
  \<open>keydown_2p\<close>. A run is a finite list of such events; the reachable states are the
  least set closed under both, and coincide with the states some run produces. Every
  invariant of \<open>Two_Player\<close> holds in every reachable state, and the score part of the
  game refines an abstract first-to-\<open>maxScore\<close> counter.
\<close>

datatype event = Frame | KeyDown key | TimerFires

text \<open>One animation frame: \<open>update()\<close>, then \<open>draw()\<close> of the new globals.\<close>

definition gameLoop_2p :: "canvas \<Rightarrow> two_player \<Rightarrow> two_player \<times> cmd list" where
  "gameLoop_2p c s = (let s' = update_2p c s in (s', draw_2p c s'))"

text \<open>
  \<open>TimerFires\<close> is a \<open>setTimeout\<close> callback coming due; \<open>src/game.js\<close> schedules none,
  so in this variant the event leaves the state as it is.
\<close>

fun step_2p :: "canvas \<Rightarrow> event \<Rightarrow> two_player \<Rightarrow> two_player" where
  "step_2p c Frame s = fst (gameLoop_2p c s)"
| "step_2p c (KeyDown k) s = keydown_2p c k s"
| "step_2p c TimerFires s = s"

fun run_2p :: "canvas \<Rightarrow> event list \<Rightarrow> two_player \<Rightarrow> two_player" where
  "run_2p c [] s = s"
| "run_2p c (e # es) s = run_2p c es (step_2p c e s)"

inductive reach_2p :: "canvas \<Rightarrow> two_player \<Rightarrow> bool" for c where
  start: "reach_2p c (init_2p c)"
| frame: "reach_2p c s \<Longrightarrow> reach_2p c (update_2p c s)"
| key: "reach_2p c s \<Longrightarrow> reach_2p c (keydown_2p c k s)"

subsection \<open>Runs and reachable states\<close>

lemma step_2p_Frame [simp]: "step_2p c Frame s = update_2p c s"
  by (simp add: gameLoop_2p_def Let_def)

declare step_2p.simps(1) [simp del]

lemma run_2p_append: "run_2p c (es @ fs) s = run_2p c fs (run_2p c es s)"
  by (induction es arbitrary: s) auto

lemma reach_2p_step: "reach_2p c s \<Longrightarrow> reach_2p c (step_2p c e s)"
  by (cases e) (auto intro: reach_2p.intros)

lemma reach_2p_run: "reach_2p c s \<Longrightarrow> reach_2p c (run_2p c es s)"
  by (induction es arbitrary: s) (auto intro: reach_2p_step)

lemma run_2p_snoc: "run_2p c (es @ [e]) s = step_2p c e (run_2p c es s)"
  by (simp add: run_2p_append)

text \<open>The reachable states are exactly the states a finite run produces from the start.\<close>

lemma reach_2p_iff_run: "reach_2p c s \<longleftrightarrow> (\<exists>es. s = run_2p c es (init_2p c))"
proof
  assume "reach_2p c s"
  then show "\<exists>es. s = run_2p c es (init_2p c)"
  proof (induction rule: reach_2p.induct)
    case start
    show ?case by (rule exI [of _ "[]"]) simp
  next
    case (frame s)
    then obtain es where "s = run_2p c es (init_2p c)" by blast
    then have "update_2p c s = run_2p c (es @ [Frame]) (init_2p c)" by (simp add: run_2p_snoc)
    then show ?case by blast
  next
    case (key s k)
    then obtain es where "s = run_2p c es (init_2p c)" by blast
    then have "keydown_2p c k s = run_2p c (es @ [KeyDown k]) (init_2p c)" by (simp add: run_2p_snoc)
    then show ?case by blast
  qed
next
  assume "\<exists>es. s = run_2p c es (init_2p c)"
  then show "reach_2p c s" using reach_2p.start reach_2p_run by blast
qed

subsection \<open>Invariants of the reachable states\<close>

lemma run_2p_ArrowUp:
  assumes "\<not> gameOver s" "\<forall>j<n. 10 * real j < leftPaddleY s"
  shows "leftPaddleY (run_2p c (replicate n (KeyDown ''ArrowUp'')) s) = leftPaddleY s - 10 * real n"
  using assms
proof (induction n arbitrary: s)
  case 0
  then show ?case by simp
next
  case (Suc n)
  have y: "0 < leftPaddleY s" using Suc.prems(2) by auto
  let ?s = "keydown_2p c ''ArrowUp'' s"
  have s': "leftPaddleY ?s = leftPaddleY s - 10" "\<not> gameOver ?s"
    using Suc.prems(1) y by (simp_all add: step_simps)
  have "\<forall>j<n. 10 * real j < leftPaddleY ?s"
  proof (intro allI impI)
    fix j assume "j < n"
    then have "10 * real (Suc j) < leftPaddleY s" using Suc.prems(2) by blast
    then show "10 * real j < leftPaddleY ?s" using s'(1) by simp
  qed
  with Suc.IH [OF s'(2)] s'(1) show ?case by simp
qed

lemma reach_2p_paddle_ok:
  assumes "aligned c" "reach_2p c s"
  shows "paddle_ok c (leftPaddleY s) \<and> paddle_ok c (rightPaddleY s)"
  using assms(2)
proof (induction rule: reach_2p.induct)
  case start
  show ?case using paddle_ok_centred [OF assms(1)] by (simp add: init_2p_def)
next
  case (frame s)
  then show ?case using paddles_update_2p [OF assms(1)] by blast
next
  case (key s k)
  then show ?case using paddles_keydown_2p [OF assms(1)] by blast
qed

lemma score_inv_2p_init: "score_inv_2p (init_2p c)"
  by (simp add: score_inv_2p_def init_2p_def)

text \<open>C1: in every reachable state of the two-player game both scores are at most maxScore, they are not both maxScore, and gameOver is set exactly when one of them is maxScore.\<close>

theorem reach_2p_scores:
  assumes "reach_2p c s"
  shows "player1Score s \<le> maxScore \<and> player2Score s \<le> maxScore
     \<and> \<not> (player1Score s = maxScore \<and> player2Score s = maxScore)
     \<and> (gameOver s \<longleftrightarrow> player1Score s = maxScore \<or> player2Score s = maxScore)"
proof -
  from assms have "score_inv_2p s"
    by (induction rule: reach_2p.induct)
       (simp_all add: score_inv_2p_init score_inv_2p_update score_inv_2p_keydown)
  then show ?thesis by (simp add: score_inv_2p_def)
qed

theorem reach_2p_scores_witness:
  "reach_2p demoCanvas (update_2p demoCanvas (init_2p demoCanvas))
   \<and> player1Score (update_2p demoCanvas (init_2p demoCanvas)) \<le> maxScore
   \<and> player2Score (update_2p demoCanvas (init_2p demoCanvas)) \<le> maxScore
   \<and> \<not> gameOver (update_2p demoCanvas (init_2p demoCanvas))"
proof -
  have r: "reach_2p demoCanvas (update_2p demoCanvas (init_2p demoCanvas))"
    by (rule reach_2p.frame [OF reach_2p.start])
  have "player1Score (update_2p demoCanvas (init_2p demoCanvas)) \<le> maxScore
     \<and> player2Score (update_2p demoCanvas (init_2p demoCanvas)) \<le> maxScore"
    using reach_2p_scores [OF r] by blast
  moreover have "\<not> gameOver (update_2p demoCanvas (init_2p demoCanvas))"
    by (simp add: update_2p_def init_2p_def demoCanvas_def ballPhysics_def moveBall_def
        wallBounce_def paddleBounce_def paddleHit_def scoring_2p_def checkGameOver_2p_def
        centredPaddleY_def)
  ultimately show ?thesis using r by blast
qed

text \<open>C4: on a canvas at least 10 wide and 10 high, in every reachable state of the two-player game the ball's centre lies within [5, width - 5] horizontally and [0, height] vertically, and both velocity components have magnitude 5.\<close>

theorem reach_2p_ball:
  assumes "10 \<le> width c" "10 \<le> height c" "reach_2p c s"
  shows "5 \<le> ballX s \<and> ballX s \<le> canvas_w c - 5 \<and> 0 \<le> ballY s \<and> ballY s \<le> canvas_h c
     \<and> \<bar>ballSpeedX s\<bar> = 5 \<and> \<bar>ballSpeedY s\<bar> = 5"
proof -
  have w: "10 \<le> canvas_w c" and h: "10 \<le> canvas_h c" using assms(1,2) by simp_all
  from assms(3) have "ball_x_ok c s \<and> ball_y_ok c s \<and> speed_ok s"
  proof (induction rule: reach_2p.induct)
    case start
    show ?case using w h by (simp add: init_2p_def ball_x_ok_def ball_y_ok_def speed_ok_def)
  next
    case (frame s)
    then show ?case using ball_ok_update_2p [OF _ _ _ w h] by blast
  next
    case (key s k)
    then show ?case by (simp add: ball_ok_keydown_2p)
  qed
  then show ?thesis by (simp add: ball_x_ok_def ball_y_ok_def speed_ok_def)
qed

theorem reach_2p_ball_witness:
  "10 \<le> width demoCanvas \<and> 10 \<le> height demoCanvas
   \<and> reach_2p demoCanvas (update_2p demoCanvas (init_2p demoCanvas))
   \<and> 5 \<le> ballX (update_2p demoCanvas (init_2p demoCanvas))
   \<and> ballY (update_2p demoCanvas (init_2p demoCanvas)) \<le> canvas_h demoCanvas"
proof -
  have d: "10 \<le> width demoCanvas" "10 \<le> height demoCanvas" by (simp_all add: demoCanvas_def)
  have r: "reach_2p demoCanvas (update_2p demoCanvas (init_2p demoCanvas))"
    by (rule reach_2p.frame [OF reach_2p.start])
  show ?thesis using reach_2p_ball [OF d r] d r by blast
qed

text \<open>C5: on a canvas whose height is a multiple of 20 and at least 60, in every reachable state of the two-player game both paddles lie wholly on the canvas: 0 <= y <= height - paddleHeight.\<close>

theorem reach_2p_paddles:
  assumes "aligned c" "reach_2p c s"
  shows "0 \<le> leftPaddleY s \<and> leftPaddleY s \<le> canvas_h c - paddleHeight
     \<and> 0 \<le> rightPaddleY s \<and> rightPaddleY s \<le> canvas_h c - paddleHeight"
  using reach_2p_paddle_ok [OF assms] by (simp add: paddle_ok_def)

theorem reach_2p_paddles_witness:
  "aligned demoCanvas \<and> reach_2p demoCanvas (keydown_2p demoCanvas ''ArrowUp'' (init_2p demoCanvas))
   \<and> 0 \<le> leftPaddleY (keydown_2p demoCanvas ''ArrowUp'' (init_2p demoCanvas))"
proof -
  have a: "aligned demoCanvas" by (simp add: aligned_def demoCanvas_def)
  have r: "reach_2p demoCanvas (keydown_2p demoCanvas ''ArrowUp'' (init_2p demoCanvas))"
    by (rule reach_2p.key [OF reach_2p.start])
  show ?thesis using reach_2p_paddles [OF a r] a r by blast
qed

text \<open>C19: on any canvas taller than 40, in every reachable state of the two-player game each paddle is less than one step (paddleSpeed) outside its range: -paddleSpeed < y < height - paddleHeight + paddleSpeed.\<close>

theorem reach_2p_paddles_near:
  assumes "40 < height c" "reach_2p c s"
  shows "- paddleSpeed < leftPaddleY s \<and> leftPaddleY s < canvas_h c - paddleHeight + paddleSpeed
     \<and> - paddleSpeed < rightPaddleY s \<and> rightPaddleY s < canvas_h c - paddleHeight + paddleSpeed"
proof -
  from assms(2) have "paddle_near c (leftPaddleY s) \<and> paddle_near c (rightPaddleY s)"
  proof (induction rule: reach_2p.induct)
    case start
    show ?case using paddle_near_centred [OF assms(1)] by (simp add: init_2p_def)
  next
    case (frame s)
    then show ?case using paddles_near_update_2p [OF assms(1)] by blast
  next
    case (key s k)
    then show ?case using paddles_near_keydown_2p by blast
  qed
  then show ?thesis by (simp add: paddle_near_def)
qed

theorem reach_2p_paddles_near_witness:
  "40 < height tallCanvas
   \<and> reach_2p tallCanvas (run_2p tallCanvas (replicate 18 (KeyDown ''ArrowUp'')) (init_2p tallCanvas))
   \<and> - paddleSpeed < leftPaddleY (run_2p tallCanvas (replicate 18 (KeyDown ''ArrowUp'')) (init_2p tallCanvas))"
proof -
  have h: "40 < height tallCanvas" by (simp add: tallCanvas_def)
  have r: "reach_2p tallCanvas (run_2p tallCanvas (replicate 18 (KeyDown ''ArrowUp'')) (init_2p tallCanvas))"
    by (rule reach_2p_run [OF reach_2p.start])
  show ?thesis using reach_2p_paddles_near [OF h r] h r by blast
qed

text \<open>C20: the key handler's clamp keeps the left paddle on the canvas exactly on aligned canvases: some reachable state of the two-player game has the paddle partly above the top edge (y < 0) if and only if the canvas height is not a multiple of 20 or is below 60. On such a canvas the start position is off the grid of 10-pixel steps, so the last ArrowUp press the guard y > 0 allows takes the paddle past 0.\<close>

theorem reach_2p_paddle_above_iff:
  "(\<exists>s. reach_2p c s \<and> leftPaddleY s < 0) \<longleftrightarrow> \<not> aligned c"
proof
  assume "\<exists>s. reach_2p c s \<and> leftPaddleY s < 0"
  then show "\<not> aligned c" using reach_2p_paddle_ok by (force simp: paddle_ok_def)
next
  assume na: "\<not> aligned c"
  define y where "y = centredPaddleY c"
  show "\<exists>s. reach_2p c s \<and> leftPaddleY s < 0"
  proof (cases "y < 0")
    case True
    then have "leftPaddleY (init_2p c) < 0" by (simp add: init_2p_def y_def)
    then show ?thesis using reach_2p.start [of c] by blast
  next
    case False
    define n where "n = nat \<lfloor>y / 10\<rfloor> + 1"
    have h: "60 \<le> height c" using False by (simp add: y_def centredPaddleY_def)
    have off: "\<not> on_grid 10 y" using na aligned_if_centred_on_grid [OF h] by (auto simp: y_def)
    have fl: "of_int \<lfloor>y / 10\<rfloor> \<le> y / 10" "y / 10 < of_int \<lfloor>y / 10\<rfloor> + 1" by linarith+
    have nn: "real (nat \<lfloor>y / 10\<rfloor>) = of_int \<lfloor>y / 10\<rfloor>" using False by simp
    have ne: "y \<noteq> of_int \<lfloor>y / 10\<rfloor> * 10" using off unfolding on_grid_def by blast
    have below: "\<forall>j<n. 10 * real j < leftPaddleY (init_2p c)"
    proof (intro allI impI)
      fix j assume "j < n"
      then have "real j \<le> of_int \<lfloor>y / 10\<rfloor>" using nn by (simp add: n_def)
      then show "10 * real j < leftPaddleY (init_2p c)"
        using fl ne by (simp add: init_2p_def y_def [symmetric])
    qed
    let ?s = "run_2p c (replicate n (KeyDown ''ArrowUp'')) (init_2p c)"
    have "leftPaddleY ?s = y - 10 * real n"
      using run_2p_ArrowUp [OF _ below] by (simp add: init_2p_def y_def)
    also have "\<dots> < 0"
    proof -
      have "y < of_int \<lfloor>y / 10\<rfloor> * 10 + 10" using fl(2) by linarith
      then show ?thesis using nn by (simp add: n_def)
    qed
    finally show ?thesis using reach_2p_run [OF reach_2p.start] by blast
  qed
qed

theorem reach_2p_paddle_above_iff_witness:
  "\<not> aligned tallCanvas \<and> (\<exists>s. reach_2p tallCanvas s \<and> leftPaddleY s < 0)
   \<and> reach_2p tallCanvas (run_2p tallCanvas (replicate 18 (KeyDown ''ArrowUp'')) (init_2p tallCanvas))
   \<and> leftPaddleY (run_2p tallCanvas (replicate 18 (KeyDown ''ArrowUp'')) (init_2p tallCanvas)) < 0"
proof -
  have na: "\<not> aligned tallCanvas" by (simp add: aligned_def tallCanvas_def)
  have "\<exists>s. reach_2p tallCanvas s \<and> leftPaddleY s < 0"
    using reach_2p_paddle_above_iff [of tallCanvas] na by blast
  moreover have "reach_2p tallCanvas (run_2p tallCanvas (replicate 18 (KeyDown ''ArrowUp'')) (init_2p tallCanvas))"
    by (rule reach_2p_run [OF reach_2p.start])
  moreover have "leftPaddleY (run_2p tallCanvas (replicate 18 (KeyDown ''ArrowUp'')) (init_2p tallCanvas)) < 0"
    by (simp add: tallCanvas_def init_2p_def keydown_2p_def centredPaddleY_def numeral_eq_Suc)
  ultimately show ?thesis using na by blast
qed

text \<open>C2: once the two-player game is over, no further frame or key press changes any of its globals.\<close>

theorem run_2p_frozen: "gameOver s \<Longrightarrow> run_2p c es s = s"
proof (induction es)
  case Nil
  then show ?case by simp
next
  case (Cons e es)
  then have "step_2p c e s = s" by (cases e) (simp_all add: update_2p_over keydown_2p_over)
  with Cons show ?case by simp
qed

theorem run_2p_frozen_witness:
  "gameOver ((init_2p demoCanvas)\<lparr>player1Score := 5, gameOver := True\<rparr>)
   \<and> run_2p demoCanvas [Frame, KeyDown ''ArrowUp'', Frame]
       ((init_2p demoCanvas)\<lparr>player1Score := 5, gameOver := True\<rparr>)
     = (init_2p demoCanvas)\<lparr>player1Score := 5, gameOver := True\<rparr>"
  using run_2p_frozen [of "(init_2p demoCanvas)\<lparr>player1Score := 5, gameOver := True\<rparr>"
      demoCanvas "[Frame, KeyDown ''ArrowUp'', Frame]"]
  by simp

subsection \<open>What a frame shows\<close>

text \<open>C17: after every animation frame of the two-player game, whatever the canvas showed before, it shows the new state and nothing else: the left paddle once, in blue, and the right paddle once, in red, each at its current height; the ball once, at its current position; one label per player, whose digits read back as that player's score; and the game-over message exactly when the game is over.\<close>

theorem gameLoop_2p_shows:
  "let (s', cmds) = gameLoop_2p c s; ps = painted (exec c cmds k) in
     rects ''blue'' ps = [(0, leftPaddleY s')]
     \<and> rects ''red'' ps = [(canvas_w c - paddleWidth, rightPaddleY s')]
     \<and> discs ps = [(ballX s', ballY s')]
     \<and> labels ''Player 1: '' ps = [player1Score s'] \<and> labels ''Player 2: '' ps = [player2Score s']
     \<and> (''Game Over You Won'' \<in> set (texts ps) \<longleftrightarrow> gameOver s')"
  by (simp add: gameLoop_2p_def observe_draw_2p Let_def)

end
