(* ===== verification/Loop_1p.thy ===== *)
theory Loop_1p
  imports One_Player Loop_2p
begin

text \<open>
  The one-player script as a whole (\<open>src/oneplayer.js\<close> lines 156--177): animation
  frames run \<open>gameLoop()\<close>, which is \<open>update()\<close> (possibly drawing the final frame
  itself) followed by \<open>draw()\<close>; key presses move the left paddle; and the
  \<open>setTimeout\<close> callbacks scheduled by \<open>resetGame()\<close> come due one at a time, oldest
  first. The reachable states are those built from the initial globals by these three
  kinds of event in any order.
\<close>

definition gameLoop_1p :: "canvas \<Rightarrow> one_player \<Rightarrow> one_player \<times> cmd list" where
  "gameLoop_1p c s = (let (s', cmds) = update_1p c s in (s', cmds @ draw_1p c s'))"

fun step_1p :: "canvas \<Rightarrow> event \<Rightarrow> one_player \<Rightarrow> one_player" where
  "step_1p c Frame s = fst (gameLoop_1p c s)"
| "step_1p c (KeyDown k) s = keydown_1p c k s"
| "step_1p c TimerFires s = timeoutFires s"

fun run_1p :: "canvas \<Rightarrow> event list \<Rightarrow> one_player \<Rightarrow> one_player" where
  "run_1p c [] s = s"
| "run_1p c (e # es) s = run_1p c es (step_1p c e s)"

inductive reach_1p :: "canvas \<Rightarrow> one_player \<Rightarrow> bool" for c where
  start: "reach_1p c (init_1p c)"
| frame: "reach_1p c s \<Longrightarrow> reach_1p c (fst (update_1p c s))"
| key: "reach_1p c s \<Longrightarrow> reach_1p c (keydown_1p c k s)"
| timer: "reach_1p c s \<Longrightarrow> reach_1p c (timeoutFires s)"

text \<open>Invariants: the scores, and the background colour with its pending callbacks.\<close>

definition score_inv_1p :: "one_player \<Rightarrow> bool" where
  "score_inv_1p s \<longleftrightarrow> player1Score s \<le> maxScore \<and> computerScore s \<le> maxScore
     \<and> \<not> (player1Score s = maxScore \<and> computerScore s = maxScore)
     \<and> (gameOver s \<longleftrightarrow> player1Score s = maxScore \<or> computerScore s = maxScore)"

definition background_inv :: "canvas \<Rightarrow> one_player \<Rightarrow> bool" where
  "background_inv c s \<longleftrightarrow> (\<forall>col \<in> set (timeouts s). col = ''greenYellow'')
     \<and> (if player1Score s + computerScore s = 0
        then backgroundColor s = initialBackground c \<and> timeouts s = []
        else backgroundColor s = ''greenYellow'')"

lemmas eval_1p_defs = update_1p_def checkGameOver_1p_def scoring_1p_def resetGame_1p_def
  computerMove_def ballPhysics_def moveBall_def wallBounce_def paddleBounce_def paddleHit_def
  centredPaddleY_def init_1p_def timeoutFires_def

subsection \<open>Runs and reachable states\<close>

lemma step_1p_Frame [simp]: "step_1p c Frame s = fst (update_1p c s)"
  by (simp add: gameLoop_1p_def split: prod.splits)

declare step_1p.simps(1) [simp del]

lemma reach_1p_step: "reach_1p c s \<Longrightarrow> reach_1p c (step_1p c e s)"
  by (cases e) (auto intro: reach_1p.intros)

lemma reach_1p_run: "reach_1p c s \<Longrightarrow> reach_1p c (run_1p c es s)"
  by (induction es arbitrary: s) (auto intro: reach_1p_step)

lemma run_1p_append: "run_1p c (es @ fs) s = run_1p c fs (run_1p c es s)"
  by (induction es arbitrary: s) auto

subsection \<open>Invariants of single steps\<close>

lemma score_inv_1p_update: "score_inv_1p s \<Longrightarrow> score_inv_1p (fst (update_1p c s))"
  by (cases "gameOver s")
     (auto simp: score_inv_1p_def update_1p_over update_1p_fields rightGoal_def)

lemma score_inv_1p_keydown: "score_inv_1p s \<Longrightarrow> score_inv_1p (keydown_1p c k s)"
  by (simp add: score_inv_1p_def step_simps)

lemma score_inv_1p_timeout: "score_inv_1p s \<Longrightarrow> score_inv_1p (timeoutFires s)"
  by (simp add: score_inv_1p_def timeoutFires_def split: list.splits)

lemma background_inv_update: "background_inv c s \<Longrightarrow> background_inv c (fst (update_1p c s))"
  by (cases "gameOver s")
     (auto simp: background_inv_def update_1p_over update_1p_fields rightGoal_def)

lemma background_inv_keydown: "background_inv c s \<Longrightarrow> background_inv c (keydown_1p c k s)"
  by (simp add: background_inv_def step_simps)

lemma background_inv_timeout: "background_inv c s \<Longrightarrow> background_inv c (timeoutFires s)"
  by (auto simp: background_inv_def timeoutFires_def split: list.splits)

lemma reach_1p_invs:
  assumes "reach_1p c s"
  shows "score_inv_1p s \<and> background_inv c s"
  using assms
proof (induction rule: reach_1p.induct)
  case start
  show ?case by (simp add: score_inv_1p_def background_inv_def init_1p_def)
next
  case (frame s)
  then show ?case by (simp add: score_inv_1p_update background_inv_update)
next
  case (key s k)
  then show ?case by (simp add: score_inv_1p_keydown background_inv_keydown)
next
  case (timer s)
  then show ?case by (simp add: score_inv_1p_timeout background_inv_timeout)
qed

subsection \<open>Properties of the reachable states\<close>

text \<open>C11: in every reachable state of the one-player game both scores are at most maxScore, not both maxScore, and gameOver holds exactly when one of them is maxScore.\<close>

theorem reach_1p_scores:
  assumes "reach_1p c s"
  shows "player1Score s \<le> maxScore \<and> computerScore s \<le> maxScore
     \<and> \<not> (player1Score s = maxScore \<and> computerScore s = maxScore)
     \<and> (gameOver s \<longleftrightarrow> player1Score s = maxScore \<or> computerScore s = maxScore)"
  using reach_1p_invs [OF assms] by (simp add: score_inv_1p_def)

theorem reach_1p_scores_witness:
  "reach_1p narrowCanvas (run_1p narrowCanvas (replicate 8 Frame) (init_1p narrowCanvas))
   \<and> computerScore (run_1p narrowCanvas (replicate 8 Frame) (init_1p narrowCanvas)) \<le> maxScore
   \<and> computerScore (run_1p narrowCanvas (replicate 8 Frame) (init_1p narrowCanvas)) = 1"
proof -
  have r: "reach_1p narrowCanvas (run_1p narrowCanvas (replicate 8 Frame) (init_1p narrowCanvas))"
    by (rule reach_1p_run [OF reach_1p.start])
  have "computerScore (run_1p narrowCanvas (replicate 8 Frame) (init_1p narrowCanvas)) = 1"
    by (simp add: eval_1p_defs narrowCanvas_def numeral_eq_Suc)
  then show ?thesis using reach_1p_scores [OF r] r by blast
qed

text \<open>C21: the background flash of the one-player game is never undone: in every reachable state after the first goal the canvas background is 'greenYellow' and every pending timeout callback sets 'greenYellow' again, so the initial background is never restored; before the first goal the background is the initial one and no callback is pending.\<close>

theorem reach_1p_background:
  assumes "reach_1p c s"
  shows "(\<forall>col \<in> set (timeouts s). col = ''greenYellow'')
     \<and> (0 < player1Score s + computerScore s \<longrightarrow> backgroundColor s = ''greenYellow'')
     \<and> (player1Score s + computerScore s = 0 \<longrightarrow> backgroundColor s = initialBackground c \<and> timeouts s = [])"
  using reach_1p_invs [OF assms] by (simp add: background_inv_def)

theorem reach_1p_background_witness:
  "reach_1p narrowCanvas (run_1p narrowCanvas (replicate 8 Frame @ [TimerFires]) (init_1p narrowCanvas))
   \<and> 0 < player1Score (run_1p narrowCanvas (replicate 8 Frame @ [TimerFires]) (init_1p narrowCanvas))
       + computerScore (run_1p narrowCanvas (replicate 8 Frame @ [TimerFires]) (init_1p narrowCanvas))
   \<and> backgroundColor (run_1p narrowCanvas (replicate 8 Frame @ [TimerFires]) (init_1p narrowCanvas))
       \<noteq> initialBackground narrowCanvas"
proof -
  let ?s = "run_1p narrowCanvas (replicate 8 Frame @ [TimerFires]) (init_1p narrowCanvas)"
  have r: "reach_1p narrowCanvas ?s" by (rule reach_1p_run [OF reach_1p.start])
  have g: "0 < player1Score ?s + computerScore ?s"
    by (simp add: eval_1p_defs narrowCanvas_def run_1p_append numeral_eq_Suc)
  have "backgroundColor ?s = ''greenYellow''" using reach_1p_background [OF r] g by blast
  then show ?thesis using r g by (simp add: narrowCanvas_def)
qed

text \<open>C13: on a canvas whose height is a multiple of 20 and at least 60, in every reachable state of the one-player game both the player's paddle and the computer's paddle lie wholly on the canvas.\<close>

theorem reach_1p_paddles:
  assumes "aligned c" "reach_1p c s"
  shows "0 \<le> leftPaddleY s \<and> leftPaddleY s \<le> canvas_h c - paddleHeight
     \<and> 0 \<le> rightPaddleY s \<and> rightPaddleY s \<le> canvas_h c - paddleHeight"
proof -
  from assms(2) have "paddle_ok c (leftPaddleY s) \<and> paddle_ok c (rightPaddleY s)"
  proof (induction rule: reach_1p.induct)
    case start
    show ?case using paddle_ok_centred [OF assms(1)] by (simp add: init_1p_def)
  next
    case (frame s)
    then show ?case using paddles_update_1p [OF assms(1)] by blast
  next
    case (key s k)
    then show ?case using paddles_keydown_1p [OF assms(1)] by blast
  next
    case (timer s)
    then show ?case by (simp add: timeoutFires_def split: list.splits)
  qed
  then show ?thesis by (simp add: paddle_ok_def)
qed

theorem reach_1p_paddles_witness:
  "aligned demoCanvas \<and> reach_1p demoCanvas (fst (update_1p demoCanvas (init_1p demoCanvas)))
   \<and> rightPaddleY (fst (update_1p demoCanvas (init_1p demoCanvas))) \<le> canvas_h demoCanvas - paddleHeight"
proof -
  have a: "aligned demoCanvas" by (simp add: aligned_def demoCanvas_def)
  have r: "reach_1p demoCanvas (fst (update_1p demoCanvas (init_1p demoCanvas)))"
    by (rule reach_1p.frame [OF reach_1p.start])
  show ?thesis using reach_1p_paddles [OF a r] a r by blast
qed

text \<open>C15: once the one-player game is over, frames and key presses change nothing; a pending timeout callback may still run, and it changes only the background colour and the queue of callbacks.\<close>

theorem run_1p_frozen:
  assumes "gameOver s"
  shows "pong.truncate (run_1p c es s) = pong.truncate s
     \<and> computerScore (run_1p c es s) = computerScore s
     \<and> (TimerFires \<notin> set es \<longrightarrow> run_1p c es s = s)"
  using assms
proof (induction es arbitrary: s)
  case Nil
  then show ?case by simp
next
  case (Cons e es)
  have t: "pong.truncate (step_1p c e s) = pong.truncate s"
    and cs: "computerScore (step_1p c e s) = computerScore s"
    and ne: "e \<noteq> TimerFires \<Longrightarrow> step_1p c e s = s"
    using Cons.prems
    by (cases e; simp add: update_1p_over keydown_1p_over step_simps)+
  have "gameOver (step_1p c e s)"
    using t Cons.prems by (simp add: pong.defs)
  with Cons.IH [of "step_1p c e s"] t cs ne show ?case by auto
qed

theorem run_1p_frozen_witness:
  "gameOver ((init_1p demoCanvas)\<lparr>computerScore := 5, gameOver := True\<rparr>)
   \<and> run_1p demoCanvas [Frame, KeyDown ''ArrowDown'', Frame]
       ((init_1p demoCanvas)\<lparr>computerScore := 5, gameOver := True\<rparr>)
     = (init_1p demoCanvas)\<lparr>computerScore := 5, gameOver := True\<rparr>"
  using run_1p_frozen [of "(init_1p demoCanvas)\<lparr>computerScore := 5, gameOver := True\<rparr>"
      demoCanvas "[Frame, KeyDown ''ArrowDown'', Frame]"]
  by simp

subsection \<open>What a frame shows\<close>

text \<open>C18: after every animation frame of a one-player game, including the game-over frame that draws the screen twice, whatever the canvas showed before, it shows the new state once: each paddle once in its colour at its height, the ball once, one label each for the player's and the computer's score reading back as those scores, the words Game Over exactly once when the game is over and never otherwise, and the message You Won! exactly when the player reached maxScore, You Lost, Try Again exactly when the computer did.\<close>

theorem gameLoop_1p_shows:
  assumes "reach_1p c s"
  shows "let (s', cmds) = gameLoop_1p c s; ps = painted (exec c cmds k) in
     rects ''blue'' ps = [(0, leftPaddleY s')]
     \<and> rects ''red'' ps = [(canvas_w c - paddleWidth, rightPaddleY s')]
     \<and> discs ps = [(ballX s', ballY s')]
     \<and> labels ''Player: '' ps = [player1Score s'] \<and> labels ''Computer: '' ps = [computerScore s']
     \<and> count_list (texts ps) ''Game Over'' = (if gameOver s' then 1 else 0)
     \<and> (''You Won!'' \<in> set (texts ps) \<longleftrightarrow> player1Score s' = maxScore)
     \<and> (''You Lost, Try Again'' \<in> set (texts ps) \<longleftrightarrow> computerScore s' = maxScore)"
proof -
  obtain s' cmds where g: "gameLoop_1p c s = (s', cmds)" by (cases "gameLoop_1p c s")
  have "reach_1p c s'"
    using reach_1p.frame [OF assms] g by (simp add: gameLoop_1p_def split: prod.splits)
  then have inv: "score_inv_1p s'" using reach_1p_invs by blast
  obtain k' where k': "painted (exec c cmds k) = painted (exec c (draw_1p c s') k')"
    using g by (auto simp: gameLoop_1p_def split: prod.splits)
  show ?thesis
    using inv unfolding g k' Let_def prod.case
    by (auto simp: observe_draw_1p score_inv_1p_def)
qed

theorem gameLoop_1p_shows_witness:
  "reach_1p narrowCanvas (init_1p narrowCanvas)
   \<and> labels ''Computer: '' (painted (exec narrowCanvas (snd (gameLoop_1p narrowCanvas (init_1p narrowCanvas))) ctx0))
     = [computerScore (fst (gameLoop_1p narrowCanvas (init_1p narrowCanvas)))]"
proof -
  have r: "reach_1p narrowCanvas (init_1p narrowCanvas)" by (rule reach_1p.start)
  from gameLoop_1p_shows [OF r, of ctx0]
  have "labels ''Computer: '' (painted (exec narrowCanvas (snd (gameLoop_1p narrowCanvas (init_1p narrowCanvas))) ctx0))
     = [computerScore (fst (gameLoop_1p narrowCanvas (init_1p narrowCanvas)))]"
    unfolding Let_def prod.case_eq_if by blast
  with r show ?thesis by blast
qed

text \<open>C24: on a canvas at least 10 by 10, in every reachable state of the one-player game the ball's centre lies within [5, width - 5] horizontally and [0, height] vertically and both velocity components have magnitude 5: neither the computer paddle nor the timeout callbacks disturb the ball.\<close>

theorem reach_1p_ball:
  assumes "10 \<le> width c" "10 \<le> height c" "reach_1p c s"
  shows "5 \<le> ballX s \<and> ballX s \<le> canvas_w c - 5 \<and> 0 \<le> ballY s \<and> ballY s \<le> canvas_h c
     \<and> \<bar>ballSpeedX s\<bar> = 5 \<and> \<bar>ballSpeedY s\<bar> = 5"
proof -
  have w: "10 \<le> canvas_w c" and h: "10 \<le> canvas_h c" using assms(1,2) by simp_all
  from assms(3) have "ball_x_ok c s \<and> ball_y_ok c s \<and> speed_ok s"
  proof (induction rule: reach_1p.induct)
    case start
    show ?case using w h by (simp add: init_1p_def ball_x_ok_def ball_y_ok_def speed_ok_def)
  next
    case (frame s)
    then show ?case using ball_ok_update_1p [OF _ _ _ w h] by blast
  next
    case (key s k)
    then show ?case by (simp add: ball_x_ok_def ball_y_ok_def speed_ok_def step_simps)
  next
    case (timer s)
    then show ?case
      by (simp add: ball_x_ok_def ball_y_ok_def speed_ok_def timeoutFires_def split: list.splits)
  qed
  then show ?thesis by (simp add: ball_x_ok_def ball_y_ok_def speed_ok_def)
qed

theorem reach_1p_ball_witness:
  "10 \<le> width narrowCanvas \<and> 10 \<le> height narrowCanvas
   \<and> reach_1p narrowCanvas (run_1p narrowCanvas (replicate 8 Frame) (init_1p narrowCanvas))
   \<and> ballX (run_1p narrowCanvas (replicate 8 Frame) (init_1p narrowCanvas)) \<le> canvas_w narrowCanvas - 5"
proof -
  have d: "10 \<le> width narrowCanvas" "10 \<le> height narrowCanvas" by (simp_all add: narrowCanvas_def)
  have r: "reach_1p narrowCanvas (run_1p narrowCanvas (replicate 8 Frame) (init_1p narrowCanvas))"
    by (rule reach_1p_run [OF reach_1p.start])
  show ?thesis using reach_1p_ball [OF d r] d r by blast
qed

end
