(* ===== verification/Score_Spec.thy ===== *)
theory Score_Spec
  imports Pong_State
begin

text \<open>
  The contract of the scoring part of either game, stated without positions: a state is
  the left score, the right score and the game-over latch. A step either changes nothing
  or, while the game is not over, gives one side one point and sets the latch when that
  side reaches \<open>maxScore\<close>. The reachable abstract states are those of a first-to-five
  match; the theories \<open>Loop_2p\<close> and \<open>Loop_1p\<close> are shown to refine this machine in the
  root theory.
\<close>

type_synonym score = "nat \<times> nat \<times> bool"

inductive score_step :: "score \<Rightarrow> score \<Rightarrow> bool" where
  stutter: "score_step a a"
| left_point: "\<not> over \<Longrightarrow> score_step (p, q, over) (p + 1, q, p + 1 = maxScore \<or> q = maxScore)"
| right_point: "\<not> over \<Longrightarrow> score_step (p, q, over) (p, q + 1, p = maxScore \<or> q + 1 = maxScore)"

inductive score_reach :: "score \<Rightarrow> bool" where
  start: "score_reach (0, 0, False)"
| step: "score_reach a \<Longrightarrow> score_step a b \<Longrightarrow> score_reach b"

definition score_ok :: "score \<Rightarrow> bool" where
  "score_ok a \<longleftrightarrow> (case a of (p, q, over) \<Rightarrow>
     p \<le> maxScore \<and> q \<le> maxScore \<and> (over \<longleftrightarrow> p = maxScore \<or> q = maxScore))"

lemma score_reach_ok: "score_reach a \<Longrightarrow> score_ok a"
proof (induction rule: score_reach.induct)
  case start
  show ?case by (simp add: score_ok_def)
next
  case (step a b)
  from step.hyps(2) step.IH show ?case
    by (cases rule: score_step.cases) (auto simp: score_ok_def)
qed

end
