(* ===== verification/Spec2Isabelle.thy ===== *)
theory Spec2Isabelle
  imports Loop_1p Score_Spec
begin

text \<open>
  \<^bold>\<open>A verified model of the browser Pong game.\<close>
  The repository has two independent scripts that share one design: \<open>src/game.js\<close>
  (two human players) and \<open>src/oneplayer.js\<close> (a player against a computer paddle).
  Each keeps its state in module-level globals, advances it in \<open>update()\<close>, draws it
  in \<open>draw()\<close>, runs both once per animation frame from \<open>gameLoop()\<close>, and moves
  paddles from a \<open>keydown\<close> listener; the browser runs these callbacks one at a time.

  \<^bold>\<open>Theories and what they model.\<close>
  \<^item> \<open>Pong_Prelude\<close>: the named collections (\<open>step_simps\<close>: field-by-field equations
    of every state change) and arithmetic on values of a fixed grid (\<open>on_grid\<close>), used
    by the paddle clamps.
  \<^item> \<open>Pong_State\<close>: the globals of lines 5--27 of both scripts as the record \<open>pong\<close>,
    extended by \<open>two_player\<close> (\<open>player2Score\<close>) and \<open>one_player\<close>
    (\<open>computerScore\<close>, the canvas's inline \<open>backgroundColor\<close>, the queue of pending
    \<open>setTimeout\<close> callbacks); the constants; the initial states \<open>init_2p\<close>,
    \<open>init_1p\<close>; the canvas element (\<open>canvas\<close>: size and initial background); and
    the paddle-range predicates \<open>paddle_ok\<close> (exact) and \<open>paddle_near\<close> (within one step).
  \<^item> \<open>Ball_Physics\<close>: the three blocks of \<open>update()\<close> that both scripts share word
    for word (move, wall bounce, paddle bounce: \<open>moveBall\<close>, \<open>wallBounce\<close>,
    \<open>paddleHit\<close>, \<open>paddleBounce\<close>, composed as \<open>ballPhysics\<close>), stated over any
    \<open>'a pong_scheme\<close>; the scoring conditions \<open>leftGoal\<close>, \<open>rightGoal\<close>; the
    vertical-position invariant \<open>ball_y_ok\<close>.
  \<^item> \<open>Two_Player\<close>: \<open>game.js\<close>'s \<open>resetGame\<close> (\<open>resetGame_2p\<close>), scoring block
    (\<open>scoring_2p\<close>), game-over check (\<open>checkGameOver_2p\<close>), \<open>update\<close>
    (\<open>update_2p\<close>) and key listener (\<open>keydown_2p\<close>); every field after a frame on
    every branch (\<open>update_2p_fields\<close>), the invariants each operation keeps, and the
    behaviour of one frame (claims C3, C8--C10, C22), including the two-frame cycle
    that traps a returned ball at the left paddle (C23).
  \<^item> \<open>Render\<close>: the canvas 2D context as a command list (\<open>cmd\<close>) executed by
    \<open>exec\<close> on a context record (fill style, font, path, painted items), modelled from
    the HTML canvas semantics because it is the browser's, not the repository's; all draw
    functions of both scripts as the commands they issue; \<open>Math.PI\<close> as its exact
    double value; the number-to-text conversion of the score labels and its inverse;
    observations of a painted canvas (\<open>texts\<close>, \<open>labels\<close>, \<open>rects\<close>,
    \<open>discs\<close>: what a viewer reads off it) and what a full draw shows, whatever was
    painted before.
  \<^item> \<open>Loop_2p\<close>: \<open>gameLoop\<close> (update, then draw) and the interleaving of frames and
    key presses, as a run over a finite list of events (\<open>run_2p\<close>) and as the inductive
    set of reachable states (\<open>reach_2p\<close>), which agree. Invariants of all
    reachable states by rule induction (C1, C4, C5, C19), the game-over latch (C2), what a
    frame shows (C17), and that the paddle clamp is exact precisely on aligned canvases (C20).
  \<^item> \<open>One_Player\<close>: \<open>oneplayer.js\<close>'s computer paddle (\<open>computerMove\<close>), its
    \<open>resetGame\<close> with the background flash and the queued timeout
    (\<open>resetGame_1p\<close>), scoring, the game-over block that draws the final frame inside
    \<open>update()\<close> (\<open>checkGameOver_1p\<close>; \<open>update_1p\<close> returns the state and the
    commands it drew), the key listener and the timeout callback (\<open>timeoutFires\<close>);
    the computer's chase policy (C12) and a goal frame (C14).
  \<^item> \<open>Loop_1p\<close>: frames, key presses and timeout callbacks (oldest first) interleaved in
    any order (\<open>run_1p\<close>, \<open>reach_1p\<close>); invariants of reachable states (C11, C13,
    C21, C24), the latch (C15), and what a frame shows, the game-over frame that draws
    twice included (C18).
  \<^item> \<open>Score_Spec\<close>: the abstract contract of scoring, a first-to-\<open>maxScore\<close> counter
    pair with a game-over latch (\<open>score_step\<close>, \<open>score_reach\<close>).
  \<^item> this theory: both games refine the scoring contract (C6, C16), and a one-player
    frame equals a two-player frame on every shared global but the computer's paddle (C7).

  \<^bold>\<open>Numbers.\<close> JavaScript numbers are IEEE doubles. Every value the scripts compute is
  a canvas size (an integer), half of one, or such a value plus or minus a multiple of 5
  or 10, bounded by the canvas size; doubles represent all of these exactly and add them
  without rounding, so positions and speeds are modelled as \<^typ>\<open>real\<close>. Scores are
  \<^typ>\<open>nat\<close> (they start at 0 and only grow by one). \<open>Math.PI * 2\<close> is the double
  \<open>Math_PI\<close> doubled, again exact.

  \<^bold>\<open>Runs instead of fuel.\<close> \<open>gameLoop\<close> reschedules itself forever and every
  callback runs to completion, so an execution is a sequence of events; each finite prefix
  is a list given to \<open>run_2p\<close>/\<open>run_1p\<close>, which recurse structurally on it. No loop
  of the program needs fuel. Witnesses use three canvases: \<open>demoCanvas\<close> (800 by 400,
  the specification's scenarios), \<open>tallCanvas\<close> (height 410, not a multiple of 20) and
  \<open>narrowCanvas\<close> (40 wide, where the one-player game's first goal comes at frame 8).

  \<^bold>\<open>Findings.\<close> The paddle clamp is exact only when the canvas height is a multiple
  of 20 (C5, C13); otherwise a paddle can leave the canvas by up to one step (C19, C20).
  After an ordinary goal the serve goes towards the scorer, not, as the specification
  says, towards the player scored against (C22). The paddle test ignores the ball's
  direction, so a ball the left paddle returns is trapped at it while the paddle covers
  it (C23). The one-player background flash is never undone, because the timeout sets
  the same colour again (C21). The scoring
  comments of \<open>oneplayer.js\<close> name the wrong scorer (C14).

  \<^bold>\<open>Not modelled.\<close> \<open>getElementById\<close>/\<open>getContext\<close> and the registration of the
  listener and of \<open>requestAnimationFrame\<close> (host wiring; their effect is the event
  model); the timing of frames and of the 100 ms timeout (only their order matters to the
  state); pixels (a picture is the ordered list of painted items); key auto-repeat (each
  repeat is one \<open>KeyDown\<close> event).
\<close>

section \<open>The two variants and the scoring contract\<close>

text \<open>
  A one-player state seen as a two-player one: the computer's score in the place of the
  second player's, the background colour and the pending timeouts forgotten.
\<close>

definition as_two_player :: "one_player \<Rightarrow> two_player" where
  "as_two_player s = \<lparr>leftPaddleY = leftPaddleY s, rightPaddleY = rightPaddleY s,
     ballX = ballX s, ballY = ballY s, ballSpeedX = ballSpeedX s, ballSpeedY = ballSpeedY s,
     player1Score = player1Score s, gameOver = gameOver s, player2Score = computerScore s\<rparr>"

definition abs_2p :: "two_player \<Rightarrow> score" where
  "abs_2p s = (player1Score s, player2Score s, gameOver s)"

definition abs_1p :: "one_player \<Rightarrow> score" where
  "abs_1p s = (player1Score s, computerScore s, gameOver s)"

lemma as_two_player_fields [simp]:
  "leftPaddleY (as_two_player s) = leftPaddleY s" "rightPaddleY (as_two_player s) = rightPaddleY s"
  "ballX (as_two_player s) = ballX s" "ballY (as_two_player s) = ballY s"
  "ballSpeedX (as_two_player s) = ballSpeedX s" "ballSpeedY (as_two_player s) = ballSpeedY s"
  "player1Score (as_two_player s) = player1Score s" "gameOver (as_two_player s) = gameOver s"
  "player2Score (as_two_player s) = computerScore s"
  by (simp_all add: as_two_player_def)

lemma goals_as_two_player [simp]:
  "leftGoal c (as_two_player s) = leftGoal c s" "rightGoal c (as_two_player s) = rightGoal c s"
  "paddleHit c (wallBounce c (moveBall (as_two_player s))) = paddleHit c (wallBounce c (moveBall s))"
  by (simp_all add: leftGoal_def rightGoal_def paddleHit_def step_simps)

subsection \<open>Simulation of the score machine\<close>

lemma score_step_update_2p:
  assumes "score_inv_2p s"
  shows "score_step (abs_2p s) (abs_2p (update_2p c s))"
proof (cases "gameOver s \<or> \<not> (leftGoal c s \<or> rightGoal c s)")
  case True
  with assms have "abs_2p (update_2p c s) = abs_2p s"
    by (auto simp: abs_2p_def update_2p_over update_2p_fields score_inv_2p_def rightGoal_def)
  then show ?thesis by (simp add: score_step.stutter)
next
  case False
  then have "\<not> gameOver s" and g: "leftGoal c s \<or> rightGoal c s" by auto
  show ?thesis
  proof (cases "leftGoal c s")
    case True
    with \<open>\<not> gameOver s\<close> show ?thesis
      using score_step.right_point [of "gameOver s" "player1Score s" "player2Score s"]
      by (simp add: abs_2p_def update_2p_fields rightGoal_def)
  next
    case False
    with g \<open>\<not> gameOver s\<close> show ?thesis
      using score_step.left_point [of "gameOver s" "player1Score s" "player2Score s"]
      by (simp add: abs_2p_def update_2p_fields)
  qed
qed

lemma score_step_update_1p:
  assumes "score_inv_1p s"
  shows "score_step (abs_1p s) (abs_1p (fst (update_1p c s)))"
proof (cases "gameOver s \<or> \<not> (leftGoal c s \<or> rightGoal c s)")
  case True
  with assms have "abs_1p (fst (update_1p c s)) = abs_1p s"
    by (auto simp: abs_1p_def update_1p_over update_1p_fields score_inv_1p_def rightGoal_def)
  then show ?thesis by (simp add: score_step.stutter)
next
  case False
  then have "\<not> gameOver s" and g: "leftGoal c s \<or> rightGoal c s" by auto
  show ?thesis
  proof (cases "leftGoal c s")
    case True
    with \<open>\<not> gameOver s\<close> show ?thesis
      using score_step.right_point [of "gameOver s" "player1Score s" "computerScore s"]
      by (simp add: abs_1p_def update_1p_fields rightGoal_def)
  next
    case False
    with g \<open>\<not> gameOver s\<close> show ?thesis
      using score_step.left_point [of "gameOver s" "player1Score s" "computerScore s"]
      by (simp add: abs_1p_def update_1p_fields)
  qed
qed

text \<open>C6: the two-player game refines the scoring contract: the scores and the game-over flag of every reachable two-player state form a reachable state of the first-to-maxScore machine, and every frame or key press is one abstract step (possibly a stutter).\<close>

theorem reach_2p_refines_score:
  assumes "reach_2p c s"
  shows "score_reach (abs_2p s)
     \<and> score_step (abs_2p s) (abs_2p (update_2p c s))
     \<and> abs_2p (keydown_2p c k s) = abs_2p s"
proof -
  from assms have "score_inv_2p s \<and> score_reach (abs_2p s)"
  proof (induction rule: reach_2p.induct)
    case start
    show ?case using score_inv_2p_init [of c] by (simp add: abs_2p_def init_2p_def score_reach.start)
  next
    case (frame s)
    then show ?case
      by (blast intro: score_inv_2p_update score_reach.step score_step_update_2p)
  next
    case (key s k)
    moreover have "abs_2p (keydown_2p c k s) = abs_2p s" by (simp add: abs_2p_def step_simps)
    ultimately show ?case by (simp add: score_inv_2p_keydown)
  qed
  moreover have "abs_2p (keydown_2p c k s) = abs_2p s" by (simp add: abs_2p_def step_simps)
  ultimately show ?thesis using score_step_update_2p by blast
qed

theorem reach_2p_refines_score_witness:
  "reach_2p demoCanvas (init_2p demoCanvas) \<and> score_reach (abs_2p (init_2p demoCanvas))"
  using reach_2p_refines_score [OF reach_2p.start [of demoCanvas]] reach_2p.start by blast

text \<open>C16: the one-player game refines the same scoring contract: every reachable one-player state maps to a reachable state of the abstract machine, frames are abstract steps, and key presses and timeout callbacks leave the scores and the game-over flag alone.\<close>

theorem reach_1p_refines_score:
  assumes "reach_1p c s"
  shows "score_reach (abs_1p s)
     \<and> score_step (abs_1p s) (abs_1p (fst (update_1p c s)))
     \<and> abs_1p (keydown_1p c k s) = abs_1p s \<and> abs_1p (timeoutFires s) = abs_1p s"
proof -
  have kt: "abs_1p (keydown_1p c k' t) = abs_1p t" "abs_1p (timeoutFires t) = abs_1p t" for k' t
    by (simp_all add: abs_1p_def step_simps timeoutFires_def split: list.splits)
  from assms have "score_inv_1p s \<and> score_reach (abs_1p s)"
  proof (induction rule: reach_1p.induct)
    case start
    show ?case by (simp add: abs_1p_def init_1p_def score_inv_1p_def score_reach.start)
  next
    case (frame s)
    then show ?case
      by (blast intro: score_inv_1p_update score_reach.step score_step_update_1p)
  next
    case (key s k)
    then show ?case by (simp add: score_inv_1p_keydown kt)
  next
    case (timer s)
    then show ?case by (simp add: score_inv_1p_timeout kt)
  qed
  then show ?thesis using score_step_update_1p kt by blast
qed

theorem reach_1p_refines_score_witness:
  "reach_1p demoCanvas (init_1p demoCanvas) \<and> score_reach (abs_1p (init_1p demoCanvas))"
  using reach_1p_refines_score [OF reach_1p.start [of demoCanvas]] reach_1p.start by blast

subsection \<open>One shared implementation\<close>

text \<open>C7: the two scripts share their physics and scoring: a one-player frame and a two-player frame from corresponding states agree on the ball, the left paddle, both scores and the game-over flag; only the computer-controlled right paddle can differ.\<close>

theorem update_1p_as_update_2p:
  "as_two_player (fst (update_1p c s))
   = (update_2p c (as_two_player s))\<lparr>rightPaddleY := rightPaddleY (fst (update_1p c s))\<rparr>"
proof (cases "gameOver s")
  case True
  then show ?thesis by (simp add: update_1p_over update_2p_over as_two_player_def)
next
  case False
  then have "\<not> gameOver (as_two_player s)" by simp
  with False show ?thesis
    by (intro two_player.equality) (auto simp: update_2p_fields update_1p_fields)
qed

end
